theory Spec2Isabelle
  imports Main
begin

section \<open>Labook: the business layer of the posts feature\<close>

text \<open>
  The class \<open>PostsBusiness\<close> receives its four collaborators through its constructor
  (posts database, users database, id generator, token manager) and every method is a
  sequence of awaited calls on them. The embedding keeps that shape: the collaborators
  are records of operations, the store they work on is a state of type \<open>'s\<close> that is
  passed along, and a thrown error is a value that ends the sequence with the state as it
  is at that moment.
\<close>

subsection \<open>Errors and awaited calls\<close>

text \<open>
  \<open>BadRequestError\<close> and \<open>NotFoundError\<close> are the two error classes the business layer
  throws. \<open>OtherError\<close> stands for whatever else an awaited call of a collaborator may
  reject with; the business layer never throws it and never catches anything.
\<close>

datatype error = BadRequestError string | NotFoundError string | OtherError string

type_synonym ('s, 'a) promise = "'s \<Rightarrow> (error + 'a) \<times> 's"

definition resolve :: "'a \<Rightarrow> ('s, 'a) promise" where
  "resolve a s = (Inr a, s)"

definition reject :: "error \<Rightarrow> ('s, 'a) promise" where
  "reject e s = (Inl e, s)"

text \<open>\<open>await m f\<close>: run \<open>m\<close>; if it rejects, the error propagates and \<open>f\<close> is not run.\<close>

definition await :: "('s, 'a) promise \<Rightarrow> ('a \<Rightarrow> ('s, 'b) promise) \<Rightarrow> ('s, 'b) promise" where
  "await m f s = (case m s of (Inl e, s') \<Rightarrow> (Inl e, s') | (Inr a, s') \<Rightarrow> f a s')"

subsection \<open>Messages\<close>

text \<open>
  The messages are the source's string literals. A character is one code unit; the
  accented letters of the source are written by their code (all are below 256).
\<close>

definition a_acute :: char where "a_acute = CHR 0xE1"
definition a_tilde :: char where "a_tilde = CHR 0xE3"
definition o_acute :: char where "o_acute = CHR 0xF3"
definition apostrophe :: char where "apostrophe = CHR 0x27"

definition msg_token_invalido :: string where
  "msg_token_invalido = ''Token inv'' @ [a_acute] @ ''lido''"

definition msg_post_ja_existe :: string where
  "msg_post_ja_existe = ''Post j'' @ [a_acute] @ '' existe.''"

definition msg_post_criado :: string where
  "msg_post_criado = ''Post criado com sucesso.''"

definition msg_nao_ha_post :: string where
  "msg_nao_ha_post = ''N'' @ [a_tilde] @ ''o h'' @ [a_acute] @ '' post correspondente ao ''
     @ [apostrophe] @ ''id'' @ [apostrophe] @ '' informado''"

definition msg_editar_proprio :: string where
  "msg_editar_proprio = ''O post deve pertencer ao usu'' @ [a_acute]
     @ ''rio logado para que possa edit'' @ [a_acute] @ ''-lo''"

definition msg_post_modificado :: string where
  "msg_post_modificado = ''Post modificado com sucesso.''"

definition msg_post_nao_existe :: string where
  "msg_post_nao_existe = ''Post n'' @ [a_tilde] @ ''o existe.''"

definition msg_usuario_nao_existe :: string where
  "msg_usuario_nao_existe = ''Usu'' @ [a_acute] @ ''rio n'' @ [a_tilde] @ ''o existe.''"

definition msg_proprio_post :: string where
  "msg_proprio_post = ''O usu'' @ [a_acute] @ ''rio n'' @ [a_tilde]
     @ ''o pode reagir ao pr'' @ [o_acute] @ ''prio post.''"

definition msg_like_enviado :: string where
  "msg_like_enviado = ''Like/Dislike enviado com sucesso.''"

definition msg_like_removido :: string where
  "msg_like_removido = ''Like/Dislike removido com sucesso.''"

definition msg_like_alterado :: string where
  "msg_like_alterado = ''Like/Dislike alterado com sucesso.''"

definition msg_id_sem_posts :: string where
  "msg_id_sem_posts = [apostrophe] @ ''id'' @ [apostrophe] @ '' informado n'' @ [a_tilde]
     @ ''o possui posts.''"

definition msg_deletar_proprio :: string where
  "msg_deletar_proprio = ''O post deve pertencer ao usu'' @ [a_acute]
     @ ''rio logado para que possa delet'' @ [a_acute] @ ''-lo''"

definition msg_post_deletado :: string where
  "msg_post_deletado = ''Post deletado com sucesso.''"

subsection \<open>Rows and transfer objects\<close>

text \<open>
  Modelled from the spec: the type declarations of the rows and of the token payload
  (\<open>types/PostDB\<close>, \<open>types/InputLikeDB\<close>, the payload of \<open>TokenManager\<close>) are not among
  the sources. Their fields are those the business layer reads and writes, with the
  columns of \<open>dados.sql\<close> and the spec's data model: \<open>Post: {id, creator_id, content,
  likes, dislikes, created_at, updated_at}\<close>, \<open>Reaction: {user_id, post_id,
  like:boolean}\<close>, payload \<open>{id, role}\<close>. \<open>GetPostsOutputDTO\<close> is the interface of
  \<open>getPosts.dto.ts\<close>.

  Field names carry a prefix per type, since \<open>id\<close>, \<open>content\<close>, \<open>like\<close> and so on occur
  in several of them: \<open>tk_\<close> token payload, \<open>usr_\<close> row of \<open>users\<close>, \<open>db_\<close> row of \<open>posts\<close>
  (\<open>PostDB\<close>), \<open>out_\<close> row of \<open>posts\<close> joined with the creator's name (\<open>PostOutputDB\<close>),
  \<open>in_\<close> \<open>PostInputDB\<close>, \<open>ed_\<close>/\<open>np_\<close> \<open>EditedPostToDB\<close>, \<open>il_\<close> \<open>InputLikeDB\<close>, \<open>ld_\<close> row of
  \<open>likes_dislikes\<close>, \<open>dto_\<close> \<open>GetPostsOutputDTO\<close>, \<open>cr_\<close> its \<open>creator\<close>.
  The column \<open>updated_at\<close> is nullable (\<open>dados.sql\<close>), hence an option.
\<close>

record TokenPayload =
  tk_id :: string
  tk_role :: string

record UserDB =
  usr_id :: string
  usr_name :: string
  usr_email :: string
  usr_password :: string
  usr_role :: string
  usr_created_at :: string

record PostInputDB =
  in_id :: string
  in_creator_id :: string
  in_content :: string

record PostDB =
  db_id :: string
  db_creator_id :: string
  db_content :: string
  db_likes :: int
  db_dislikes :: int
  db_created_at :: string
  db_updated_at :: "string option"

record PostOutputDB =
  out_id :: string
  out_creator_id :: string
  out_content :: string
  out_likes :: int
  out_dislikes :: int
  out_created_at :: string
  out_updated_at :: "string option"
  out_name :: string

record NewPost =
  np_content :: string
  np_updated_at :: string

record EditedPostToDB =
  ed_idToEdit :: string
  ed_newPost :: NewPost

record InputLikeDB =
  il_userId :: string
  il_postId :: string
  il_like :: bool

record LikeDislikeDB =
  ld_user_id :: string
  ld_post_id :: string
  ld_like :: bool

record Creator =
  cr_id :: string
  cr_name :: string

record GetPostsOutputDTO =
  dto_id :: string
  dto_content :: string
  dto_likes :: int
  dto_dislikes :: int
  dto_createdAt :: string
  dto_updatedAt :: "string option"
  dto_creator :: Creator

record OutputDTO =
  message :: string

subsection \<open>The model class \<open>Post\<close>\<close>

text \<open>
  Modelled from the spec: the class \<open>Post\<close> (\<open>models/Post\<close>) is not among the sources.
  Its constructor takes id, content, likes, dislikes, createdAt, updatedAt and creator in
  this order (the call in \<open>getPosts\<close>), and each getter returns the field of its name
  (\<open>Maps each row to an output record with id, content, like/dislike counts, timestamps,
  and creator\<close>).
\<close>

datatype Post = Post string string int int string "string option" Creator

fun getId :: "Post \<Rightarrow> string" where
  "getId (Post i c l d ca ua cr) = i"

fun getContent :: "Post \<Rightarrow> string" where
  "getContent (Post i c l d ca ua cr) = c"

fun getLikes :: "Post \<Rightarrow> int" where
  "getLikes (Post i c l d ca ua cr) = l"

fun getDislikes :: "Post \<Rightarrow> int" where
  "getDislikes (Post i c l d ca ua cr) = d"

fun getCreatedAt :: "Post \<Rightarrow> string" where
  "getCreatedAt (Post i c l d ca ua cr) = ca"

fun getUpdatedAt :: "Post \<Rightarrow> string option" where
  "getUpdatedAt (Post i c l d ca ua cr) = ua"

fun getCreator :: "Post \<Rightarrow> Creator" where
  "getCreator (Post i c l d ca ua cr) = cr"

subsection \<open>The collaborators\<close>

text \<open>
  The operations the business layer calls, with the names of the source. Those of
  \<open>PostsDatabase\<close> that share a name with a method of \<open>PostsBusiness\<close> carry the suffix
  \<open>DB\<close>. Every operation of a database is awaited, so it is a promise over the store.
  \<open>getPayload\<close> is called synchronously and has no access to the store.
  \<open>generate\<close> stands for the id that \<open>idGenerator.generate()\<close> returns in the call at hand.

  Modelled from the spec: the four classes are not among the sources; the business layer
  fixes the names and arguments of their operations, the spec their results
  (\<open>decode(token) -> {id, role} | null\<close>, \<open>getById(id) -> PostRow | null\<close>,
  \<open>getReaction(userId, postId) -> ReactionRow | null\<close>, \<open>next() -> string\<close>).
\<close>

record 's PostsDatabase =
  getPostsDB :: "string option \<Rightarrow> ('s, PostOutputDB list) promise"
  getPostByIdDBForm :: "string \<Rightarrow> ('s, PostDB option) promise"
  getPostByIdOutputForm :: "string \<Rightarrow> ('s, PostOutputDB option) promise"
  createPostDB :: "PostInputDB \<Rightarrow> ('s, unit) promise"
  editPostDB :: "EditedPostToDB \<Rightarrow> ('s, unit) promise"
  deletePostDB :: "string \<Rightarrow> ('s, unit) promise"
  getLike :: "InputLikeDB \<Rightarrow> ('s, LikeDislikeDB option) promise"
  createLike :: "InputLikeDB \<Rightarrow> ('s, unit) promise"
  addLikeInPost :: "InputLikeDB \<Rightarrow> ('s, unit) promise"
  deleteLike :: "InputLikeDB \<Rightarrow> ('s, unit) promise"
  decreaseLikeInPost :: "InputLikeDB \<Rightarrow> ('s, unit) promise"
  changeLike :: "InputLikeDB \<Rightarrow> ('s, unit) promise"
  overwriteLikeInPost :: "InputLikeDB \<Rightarrow> ('s, unit) promise"

record 's UserDatabase =
  findUserById :: "string \<Rightarrow> ('s, UserDB option) promise"

record IdGenerator =
  generate :: string

record TokenManager =
  getPayload :: "string \<Rightarrow> TokenPayload option"

record 's PostsBusiness =
  postsDatabase :: "'s PostsDatabase"
  usersDatabase :: "'s UserDatabase"
  idGenerator :: IdGenerator
  tokenManager :: TokenManager

subsection \<open>The methods of \<open>PostsBusiness\<close>\<close>

text \<open>
  Each method takes the fields of its input object as arguments (the source destructures
  the input in its first line). \<open>editPost\<close> also takes \<open>now\<close>, the value of
  \<open>new Date().toISOString()\<close>.
\<close>

definition getPosts ::
  "'s PostsBusiness \<Rightarrow> string \<Rightarrow> string option \<Rightarrow> ('s, GetPostsOutputDTO list) promise" where
  "getPosts this token query =
     (case getPayload (tokenManager this) token of
        None \<Rightarrow> reject (BadRequestError msg_token_invalido)
      | Some isTokenValid \<Rightarrow>
          await (getPostsDB (postsDatabase this) query) (\<lambda>posts.
            let checkedPosts = map (\<lambda>post.
                  Post (out_id post) (out_content post) (out_likes post) (out_dislikes post)
                    (out_created_at post) (out_updated_at post)
                    \<lparr>cr_id = out_creator_id post, cr_name = out_name post\<rparr>) posts;
                output = map (\<lambda>post.
                  \<lparr>dto_id = getId post,
                   dto_content = getContent post,
                   dto_likes = getLikes post,
                   dto_dislikes = getDislikes post,
                   dto_createdAt = getCreatedAt post,
                   dto_updatedAt = getUpdatedAt post,
                   dto_creator = getCreator post\<rparr>) checkedPosts
            in resolve output))"

definition createPost ::
  "'s PostsBusiness \<Rightarrow> string \<Rightarrow> string \<Rightarrow> ('s, OutputDTO) promise" where
  "createPost this content token =
     (case getPayload (tokenManager this) token of
        None \<Rightarrow> reject (BadRequestError msg_token_invalido)
      | Some payload \<Rightarrow>
          let newPost = \<lparr>in_id = generate (idGenerator this),
                         in_creator_id = tk_id payload,
                         in_content = content\<rparr>
          in await (getPostByIdDBForm (postsDatabase this) (in_id newPost)) (\<lambda>postExists.
               case postExists of
                 Some found \<Rightarrow> reject (BadRequestError msg_post_ja_existe)
               | None \<Rightarrow>
                   await (createPostDB (postsDatabase this) newPost) (\<lambda>_.
                     resolve \<lparr>message = msg_post_criado\<rparr>)))"

definition editPost ::
  "'s PostsBusiness \<Rightarrow> string \<Rightarrow> string \<Rightarrow> string \<Rightarrow> string \<Rightarrow> ('s, OutputDTO) promise" where
  "editPost this now idToEdit newContent token =
     (case getPayload (tokenManager this) token of
        None \<Rightarrow> reject (BadRequestError msg_token_invalido)
      | Some payload \<Rightarrow>
          await (getPostByIdOutputForm (postsDatabase this) idToEdit) (\<lambda>postToEdit.
            case postToEdit of
              None \<Rightarrow> reject (NotFoundError msg_nao_ha_post)
            | Some post \<Rightarrow>
                if tk_id payload \<noteq> out_creator_id post
                then reject (BadRequestError msg_editar_proprio)
                else
                  let inputDB = \<lparr>ed_idToEdit = idToEdit,
                                 ed_newPost = \<lparr>np_content = newContent, np_updated_at = now\<rparr>\<rparr>
                  in await (editPostDB (postsDatabase this) inputDB) (\<lambda>_.
                       resolve \<lparr>message = msg_post_modificado\<rparr>)))"

definition putLike ::
  "'s PostsBusiness \<Rightarrow> string \<Rightarrow> bool \<Rightarrow> string \<Rightarrow> ('s, OutputDTO) promise" where
  "putLike this postId like token =
     (case getPayload (tokenManager this) token of
        None \<Rightarrow> reject (BadRequestError msg_token_invalido)
      | Some payload \<Rightarrow>
          let userId = tk_id payload;
              inputLikeDB = \<lparr>il_userId = userId, il_postId = postId, il_like = like\<rparr>
          in await (getPostByIdDBForm (postsDatabase this) postId) (\<lambda>postDB.
               case postDB of
                 None \<Rightarrow> reject (NotFoundError msg_post_nao_existe)
               | Some post \<Rightarrow>
                   await (findUserById (usersDatabase this) userId) (\<lambda>userDB.
                     case userDB of
                       None \<Rightarrow> reject (NotFoundError msg_usuario_nao_existe)
                     | Some user \<Rightarrow>
                         if db_creator_id post = userId
                         then reject (BadRequestError msg_proprio_post)
                         else
                           await (getLike (postsDatabase this) inputLikeDB) (\<lambda>likeDB.
                             case likeDB of
                               None \<Rightarrow>
                                 await (createLike (postsDatabase this) inputLikeDB) (\<lambda>_.
                                 await (addLikeInPost (postsDatabase this) inputLikeDB) (\<lambda>_.
                                   resolve \<lparr>message = msg_like_enviado\<rparr>))
                             | Some row \<Rightarrow>
                                 if ld_like row = like
                                 then
                                   await (deleteLike (postsDatabase this) inputLikeDB) (\<lambda>_.
                                   await (decreaseLikeInPost (postsDatabase this) inputLikeDB) (\<lambda>_.
                                     resolve \<lparr>message = msg_like_removido\<rparr>))
                                 else
                                   await (changeLike (postsDatabase this) inputLikeDB) (\<lambda>_.
                                   await (overwriteLikeInPost (postsDatabase this) inputLikeDB) (\<lambda>_.
                                     resolve \<lparr>message = msg_like_alterado\<rparr>))))))"

definition deletePost ::
  "'s PostsBusiness \<Rightarrow> string \<Rightarrow> string \<Rightarrow> ('s, OutputDTO) promise" where
  "deletePost this idToDelete token =
     (case getPayload (tokenManager this) token of
        None \<Rightarrow> reject (BadRequestError msg_token_invalido)
      | Some payload \<Rightarrow>
          await (getPostByIdDBForm (postsDatabase this) idToDelete) (\<lambda>postExists.
            case postExists of
              None \<Rightarrow> reject (NotFoundError msg_id_sem_posts)
            | Some post \<Rightarrow>
                if tk_id payload \<noteq> db_creator_id post
                then reject (BadRequestError msg_deletar_proprio)
                else
                  await (deletePostDB (postsDatabase this) idToDelete) (\<lambda>_.
                    resolve \<lparr>message = msg_post_deletado\<rparr>)))"

section \<open>The store\<close>

text \<open>
  Modelled from the spec: the classes \<open>PostsDatabase\<close> and \<open>UserDatabase\<close> are not among
  the sources. The store is the three tables of \<open>dados.sql\<close>, each a list of rows, and its
  operations are those of the spec's \<open>Post Store\<close> and \<open>User Store\<close> interfaces.
\<close>

record Store =
  users :: "UserDB list"
  posts :: "PostDB list"
  likes_dislikes :: "LikeDislikeDB list"

text \<open>Modelled from the spec: \<open>User Store: getById(id) -> UserRow | null\<close>.\<close>

definition getUserById :: "string \<Rightarrow> Store \<Rightarrow> UserDB option" where
  "getUserById i s = find (\<lambda>u. usr_id u = i) (users s)"

text \<open>Modelled from the spec: \<open>getById(id) -> PostRow | null\<close>.\<close>

definition getById :: "string \<Rightarrow> Store \<Rightarrow> PostDB option" where
  "getById i s = find (\<lambda>p. db_id p = i) (posts s)"

text \<open>
  Modelled from the spec: rows of \<open>posts\<close> are read \<open>joined with creator name\<close>; a post
  whose creator is not in \<open>users\<close> has no joined row.
\<close>

definition joinCreator :: "Store \<Rightarrow> PostDB \<Rightarrow> PostOutputDB option" where
  "joinCreator s p =
     (case getUserById (db_creator_id p) s of
        None \<Rightarrow> None
      | Some u \<Rightarrow>
          Some \<lparr>out_id = db_id p, out_creator_id = db_creator_id p, out_content = db_content p,
                out_likes = db_likes p, out_dislikes = db_dislikes p,
                out_created_at = db_created_at p, out_updated_at = db_updated_at p,
                out_name = usr_name u\<rparr>)"

definition getByIdJoined :: "string \<Rightarrow> Store \<Rightarrow> PostOutputDB option" where
  "getByIdJoined i s = (case getById i s of None \<Rightarrow> None | Some p \<Rightarrow> joinCreator s p)"

text \<open>
  Modelled from the spec: \<open>listByQuery(q?) -> PostRow[]\<close>, \<open>posts matching the query (or all
  if absent)\<close>. What matching is, the spec leaves open: \<open>matches\<close> is a parameter.
\<close>

definition listByQuery :: "(string \<Rightarrow> PostDB \<Rightarrow> bool) \<Rightarrow> string option \<Rightarrow> Store \<Rightarrow> PostOutputDB list" where
  "listByQuery matches q s =
     List.map_filter (joinCreator s)
       (case q of None \<Rightarrow> posts s | Some text \<Rightarrow> filter (matches text) (posts s))"

text \<open>
  Modelled from the spec: \<open>insert(PostRow)\<close>, which \<open>persists {id, creator_id, content} with
  default counters zero\<close>. The defaults are those of \<open>dados.sql\<close>: \<open>likes\<close> and \<open>dislikes\<close> 0,
  \<open>created_at\<close> the database's current time (\<open>datetime\<close>), \<open>updated_at\<close> null.
\<close>

definition insertPost :: "string \<Rightarrow> PostInputDB \<Rightarrow> Store \<Rightarrow> Store" where
  "insertPost datetime p s =
     s\<lparr>posts := posts s @
         [\<lparr>db_id = in_id p, db_creator_id = in_creator_id p, db_content = in_content p,
           db_likes = 0, db_dislikes = 0, db_created_at = datetime, db_updated_at = None\<rparr>]\<rparr>"

text \<open>Modelled from the spec: \<open>update(id, {content, updated_at})\<close>.\<close>

definition updatePost :: "EditedPostToDB \<Rightarrow> Store \<Rightarrow> Store" where
  "updatePost e s =
     s\<lparr>posts := map (\<lambda>p. if db_id p = ed_idToEdit e
                           then p\<lparr>db_content := np_content (ed_newPost e),
                                  db_updated_at := Some (np_updated_at (ed_newPost e))\<rparr>
                           else p) (posts s)\<rparr>"

text \<open>Modelled from the spec: \<open>delete(id)\<close>; \<open>store cascades associated reactions\<close>.\<close>

definition deletePostRow :: "string \<Rightarrow> Store \<Rightarrow> Store" where
  "deletePostRow i s =
     s\<lparr>posts := filter (\<lambda>p. db_id p \<noteq> i) (posts s),
       likes_dislikes := filter (\<lambda>r. ld_post_id r \<noteq> i) (likes_dislikes s)\<rparr>"

text \<open>
  Modelled from the spec: the reaction operations \<open>getReaction(userId, postId)\<close>,
  \<open>insertReaction\<close>, \<open>deleteReaction\<close>, \<open>updateReaction\<close>, on rows
  \<open>{user_id, post_id, like:boolean}\<close>. A row belongs to the pair of its user and post.
\<close>

definition same_pair :: "InputLikeDB \<Rightarrow> LikeDislikeDB \<Rightarrow> bool" where
  "same_pair i r \<longleftrightarrow> ld_user_id r = il_userId i \<and> ld_post_id r = il_postId i"

definition getReaction :: "InputLikeDB \<Rightarrow> Store \<Rightarrow> LikeDislikeDB option" where
  "getReaction i s = find (same_pair i) (likes_dislikes s)"

definition insertReaction :: "InputLikeDB \<Rightarrow> Store \<Rightarrow> Store" where
  "insertReaction i s =
     s\<lparr>likes_dislikes := likes_dislikes s @
         [\<lparr>ld_user_id = il_userId i, ld_post_id = il_postId i, ld_like = il_like i\<rparr>]\<rparr>"

definition deleteReaction :: "InputLikeDB \<Rightarrow> Store \<Rightarrow> Store" where
  "deleteReaction i s =
     s\<lparr>likes_dislikes := filter (\<lambda>r. \<not> same_pair i r) (likes_dislikes s)\<rparr>"

definition updateReaction :: "InputLikeDB \<Rightarrow> Store \<Rightarrow> Store" where
  "updateReaction i s =
     s\<lparr>likes_dislikes := map (\<lambda>r. if same_pair i r then r\<lparr>ld_like := il_like i\<rparr> else r)
                              (likes_dislikes s)\<rparr>"

text \<open>
  Modelled from the spec: \<open>counter increment/decrement/overwrite operations keyed by post
  id and reaction kind\<close>. Overwriting to a kind increments its counter and decrements the
  other one (the last two rows of the transition table).
\<close>

definition incrementCounter :: "InputLikeDB \<Rightarrow> Store \<Rightarrow> Store" where
  "incrementCounter i s =
     s\<lparr>posts := map (\<lambda>p. if db_id p = il_postId i
                           then (if il_like i then p\<lparr>db_likes := db_likes p + 1\<rparr>
                                 else p\<lparr>db_dislikes := db_dislikes p + 1\<rparr>)
                           else p) (posts s)\<rparr>"

definition decrementCounter :: "InputLikeDB \<Rightarrow> Store \<Rightarrow> Store" where
  "decrementCounter i s =
     s\<lparr>posts := map (\<lambda>p. if db_id p = il_postId i
                           then (if il_like i then p\<lparr>db_likes := db_likes p - 1\<rparr>
                                 else p\<lparr>db_dislikes := db_dislikes p - 1\<rparr>)
                           else p) (posts s)\<rparr>"

definition overwriteCounter :: "InputLikeDB \<Rightarrow> Store \<Rightarrow> Store" where
  "overwriteCounter i s =
     s\<lparr>posts := map (\<lambda>p. if db_id p = il_postId i
                           then (if il_like i
                                 then p\<lparr>db_likes := db_likes p + 1, db_dislikes := db_dislikes p - 1\<rparr>
                                 else p\<lparr>db_dislikes := db_dislikes p + 1, db_likes := db_likes p - 1\<rparr>)
                           else p) (posts s)\<rparr>"

text \<open>A read returns its result and leaves the store; a write returns the new store.\<close>

definition reading :: "(Store \<Rightarrow> 'a) \<Rightarrow> (Store, 'a) promise" where
  "reading f s = (Inr (f s), s)"

definition writing :: "(Store \<Rightarrow> Store) \<Rightarrow> (Store, unit) promise" where
  "writing f s = (Inr (), f s)"

definition store_PostsDatabase :: "(string \<Rightarrow> PostDB \<Rightarrow> bool) \<Rightarrow> string \<Rightarrow> Store PostsDatabase" where
  "store_PostsDatabase matches datetime =
     \<lparr>getPostsDB = (\<lambda>q. reading (listByQuery matches q)),
      getPostByIdDBForm = (\<lambda>i. reading (getById i)),
      getPostByIdOutputForm = (\<lambda>i. reading (getByIdJoined i)),
      createPostDB = (\<lambda>p. writing (insertPost datetime p)),
      editPostDB = (\<lambda>e. writing (updatePost e)),
      deletePostDB = (\<lambda>i. writing (deletePostRow i)),
      getLike = (\<lambda>i. reading (getReaction i)),
      createLike = (\<lambda>i. writing (insertReaction i)),
      addLikeInPost = (\<lambda>i. writing (incrementCounter i)),
      deleteLike = (\<lambda>i. writing (deleteReaction i)),
      decreaseLikeInPost = (\<lambda>i. writing (decrementCounter i)),
      changeLike = (\<lambda>i. writing (updateReaction i)),
      overwriteLikeInPost = (\<lambda>i. writing (overwriteCounter i))\<rparr>"

definition store_UserDatabase :: "Store UserDatabase" where
  "store_UserDatabase = \<lparr>findUserById = (\<lambda>i. reading (getUserById i))\<rparr>"

text \<open>
  The business layer over the store, as \<open>postRouter.ts\<close> assembles it. The id generator's
  result and the token manager's decoding stay parameters.
\<close>

definition labook ::
  "(string \<Rightarrow> PostDB \<Rightarrow> bool) \<Rightarrow> string \<Rightarrow> string \<Rightarrow> (string \<Rightarrow> TokenPayload option) \<Rightarrow> Store PostsBusiness" where
  "labook matches datetime newId decode =
     \<lparr>postsDatabase = store_PostsDatabase matches datetime,
      usersDatabase = store_UserDatabase,
      idGenerator = \<lparr>generate = newId\<rparr>,
      tokenManager = \<lparr>getPayload = decode\<rparr>\<rparr>"

subsection \<open>Counters and reaction rows\<close>

definition count_reactions :: "Store \<Rightarrow> string \<Rightarrow> bool \<Rightarrow> int" where
  "count_reactions s postId kind =
     int (length (filter (\<lambda>r. ld_post_id r = postId \<and> ld_like r = kind) (likes_dislikes s)))"

definition counters_match :: "Store \<Rightarrow> bool" where
  "counters_match s \<longleftrightarrow>
     list_all (\<lambda>p. db_likes p = count_reactions s (db_id p) True
                 \<and> db_dislikes p = count_reactions s (db_id p) False) (posts s)"

definition reactions_unique :: "Store \<Rightarrow> bool" where
  "reactions_unique s \<longleftrightarrow> distinct (map (\<lambda>r. (ld_user_id r, ld_post_id r)) (likes_dislikes s))"

text \<open>A finite sequence of \<open>putLike\<close> calls; a call that throws leaves the store it reached.\<close>

fun putLikes :: "'s PostsBusiness \<Rightarrow> (string \<times> bool \<times> string) list \<Rightarrow> 's \<Rightarrow> 's" where
  "putLikes this [] s = s"
| "putLikes this ((postId, like, token) # calls) s =
     putLikes this calls (snd (putLike this postId like token s))"

subsection \<open>The data of \<open>dados.sql\<close>\<close>

definition u001 :: UserDB where
  "u001 = \<lparr>usr_id = ''u001'', usr_name = ''Fulano'', usr_email = ''fulano@email.com'',
           usr_password = ''fulano123'', usr_role = ''NORMAL'', usr_created_at = ''2023-05-15 12:00:00''\<rparr>"

definition u002 :: UserDB where
  "u002 = \<lparr>usr_id = ''u002'', usr_name = ''Beltrana'', usr_email = ''beltrana@email.com'',
           usr_password = ''beltrana00'', usr_role = ''NORMAL'', usr_created_at = ''2023-05-15 12:00:00''\<rparr>"

definition u003 :: UserDB where
  "u003 = \<lparr>usr_id = ''u003'', usr_name = ''Astrodev'', usr_email = ''astrodev@email.com'',
           usr_password = ''astrodev99'', usr_role = ''ADMIN'', usr_created_at = ''2023-05-15 12:00:00''\<rparr>"

definition p001 :: PostDB where
  "p001 = \<lparr>db_id = ''p001'', db_creator_id = ''u001'', db_content = ''lindo dia.'',
           db_likes = 0, db_dislikes = 0, db_created_at = ''2023-05-15 12:00:00'',
           db_updated_at = None\<rparr>"

definition p002 :: PostDB where
  "p002 = \<lparr>db_id = ''p002'', db_creator_id = ''u002'', db_content = ''hoje vai ser demais.'',
           db_likes = 0, db_dislikes = 0, db_created_at = ''2023-05-15 12:00:00'',
           db_updated_at = None\<rparr>"

definition p003 :: PostDB where
  "p003 = \<lparr>db_id = ''p003'', db_creator_id = ''u003'', db_content = ''ontem a lua estava linda.'',
           db_likes = 0, db_dislikes = 0, db_created_at = ''2023-05-15 12:00:00'',
           db_updated_at = None\<rparr>"

definition dados :: Store where
  "dados = \<lparr>users = [u001, u002, u003], posts = [p001, p002, p003], likes_dislikes = []\<rparr>"

text \<open>The same data after u002 has liked, and after u002 has disliked, the post p001.\<close>

definition dados_liked :: Store where
  "dados_liked = \<lparr>users = [u001, u002, u003],
                   posts = [p001\<lparr>db_likes := 1\<rparr>, p002, p003],
                   likes_dislikes = [\<lparr>ld_user_id = ''u002'', ld_post_id = ''p001'', ld_like = True\<rparr>]\<rparr>"

definition dados_disliked :: Store where
  "dados_disliked = \<lparr>users = [u001, u002, u003],
                      posts = [p001\<lparr>db_dislikes := 1\<rparr>, p002, p003],
                      likes_dislikes = [\<lparr>ld_user_id = ''u002'', ld_post_id = ''p001'', ld_like = False\<rparr>]\<rparr>"

text \<open>
  A store in which the pair of u002 and p001 has two reaction rows, both likes, and p001
  counts two likes. The table \<open>likes_dislikes\<close> of \<open>dados.sql\<close> has no key, so it admits
  such rows.
\<close>

definition dados_duplicated :: Store where
  "dados_duplicated = \<lparr>users = [u001, u002, u003],
                        posts = [p001\<lparr>db_likes := 2\<rparr>, p002, p003],
                        likes_dislikes = [\<lparr>ld_user_id = ''u002'', ld_post_id = ''p001'', ld_like = True\<rparr>,
                                          \<lparr>ld_user_id = ''u002'', ld_post_id = ''p001'', ld_like = True\<rparr>]\<rparr>"

text \<open>A token manager for the examples: the token of a user is \<open>token-\<close> and the user's id.\<close>

definition decode_example :: "string \<Rightarrow> TokenPayload option" where
  "decode_example t =
     (if take 6 t = ''token-'' then Some \<lparr>tk_id = drop 6 t, tk_role = ''NORMAL''\<rparr> else None)"

fun occurs_in :: "string \<Rightarrow> string \<Rightarrow> bool" where
  "occurs_in q [] = (q = [])"
| "occurs_in q (c # cs) = (take (length q) (c # cs) = q \<or> occurs_in q cs)"

definition contains :: "string \<Rightarrow> PostDB \<Rightarrow> bool" where
  "contains q p = occurs_in q (db_content p)"

definition example :: "Store PostsBusiness" where
  "example = labook contains ''2023-05-16 09:30:00'' ''p004'' decode_example"

text \<open>
  A posts database whose counter increment is rejected (the database is busy, say);
  every other operation is the store's.
\<close>

definition example_busy :: "Store PostsBusiness" where
  "example_busy =
     example\<lparr>postsDatabase :=
       (postsDatabase example)\<lparr>addLikeInPost := (\<lambda>i. reject (OtherError ''SQLITE_BUSY''))\<rparr>\<rparr>"

subsection \<open>Status categories\<close>

text \<open>
  Modelled from the spec: the error classes (\<open>errors/BadRequestError\<close>,
  \<open>errors/NotFoundError\<close>) are not among the sources. Each error has \<open>an associated status
  category (auth/not-found/bad-request)\<close>; the category of an error is that of its class.
\<close>

datatype category = auth | not_found | bad_request | unclassified

fun category_of :: "error \<Rightarrow> category" where
  "category_of (BadRequestError m) = bad_request"
| "category_of (NotFoundError m) = not_found"
| "category_of (OtherError m) = unclassified"

section \<open>Properties\<close>

subsection \<open>Evaluating the examples\<close>

lemmas promise_defs = await_def resolve_def reject_def reading_def writing_def

lemmas example_defs =
  example_def labook_def store_PostsDatabase_def store_UserDatabase_def decode_example_def
  dados_def u001_def u002_def u003_def p001_def p002_def p003_def

subsection \<open>Token validation\<close>

text \<open>
  Claim C4, as the code has it. For every operation (\<open>getPosts\<close>, \<open>createPost\<close>,
  \<open>editPost\<close>, \<open>deletePost\<close>, \<open>putLike\<close>) and every posts and users database: when
  \<open>getPayload\<close> decodes the token to nothing, the operation throws
  \<open>BadRequestError\<close> with the message of \<open>msg_token_invalido\<close> and the store is the one the call
  started with. Since this holds whatever the operations of the databases do, none of
  them is called. The error is of the bad-request class: the code has no error of its own
  for authentication.
\<close>

theorem invalid_token_aborts_before_store:
  assumes "getPayload (tokenManager this) token = None"
  shows "getPosts this token query s = (Inl (BadRequestError msg_token_invalido), s)
       \<and> createPost this content token s = (Inl (BadRequestError msg_token_invalido), s)
       \<and> editPost this now idToEdit newContent token s = (Inl (BadRequestError msg_token_invalido), s)
       \<and> deletePost this idToDelete token s = (Inl (BadRequestError msg_token_invalido), s)
       \<and> putLike this postId like token s = (Inl (BadRequestError msg_token_invalido), s)"
  using assms
  by (simp add: getPosts_def createPost_def editPost_def deletePost_def putLike_def reject_def)

theorem invalid_token_aborts_before_store_witness:
  "getPayload (tokenManager example) ''expired'' = None
   \<and> getPosts example ''expired'' None dados = (Inl (BadRequestError msg_token_invalido), dados)
   \<and> createPost example ''bom dia'' ''expired'' dados = (Inl (BadRequestError msg_token_invalido), dados)
   \<and> editPost example ''2023-05-17T10:00:00.000Z'' ''p001'' ''bom dia'' ''expired'' dados
       = (Inl (BadRequestError msg_token_invalido), dados)
   \<and> deletePost example ''p001'' ''expired'' dados = (Inl (BadRequestError msg_token_invalido), dados)
   \<and> putLike example ''p001'' True ''expired'' dados = (Inl (BadRequestError msg_token_invalido), dados)"
proof -
  have h: "getPayload (tokenManager example) ''expired'' = None"
    by (simp add: example_def labook_def decode_example_def)
  from invalid_token_aborts_before_store [OF h] h show ?thesis
    by blast
qed

text \<open>
  Claim C4 as stated fails on the kind of the error: with a token that does not decode,
  \<open>getPosts\<close> aborts with an error of the bad-request category, not of the
  authentication category.
\<close>

theorem invalid_token_error_is_bad_request:
  "getPayload (tokenManager example) ''expired'' = None
   \<and> fst (getPosts example ''expired'' None dados) = Inl (BadRequestError msg_token_invalido)
   \<and> category_of (BadRequestError msg_token_invalido) \<noteq> auth"
  by (simp add: getPosts_def reject_def example_def labook_def decode_example_def)

subsection \<open>The preconditions of \<open>putLike\<close>\<close>

text \<open>
  Claim C3. \<open>putLike\<close> checks its preconditions in this order, for every posts and users
  database: a token that does not decode fails first (whatever the post and the user
  are); then a post that the posts database does not find fails with \<open>NotFoundError\<close>
  (whatever the users database holds); then an acting user that the users database does
  not find fails with \<open>NotFoundError\<close>; then an acting user who is the post's creator
  fails with \<open>BadRequestError\<close>. In each case, with lookups that leave the store as it
  is, the store after the call is the store before it: no reaction row is created,
  deleted or changed and no counter is changed, since no writing operation is called.
\<close>

theorem putLike_precondition_order:
  "(getPayload (tokenManager this) token = None \<longrightarrow>
      putLike this postId like token s = (Inl (BadRequestError msg_token_invalido), s))
 \<and> (getPayload (tokenManager this) token = Some payload
      \<and> getPostByIdDBForm (postsDatabase this) postId s = (Inr None, s) \<longrightarrow>
      putLike this postId like token s = (Inl (NotFoundError msg_post_nao_existe), s))
 \<and> (getPayload (tokenManager this) token = Some payload
      \<and> getPostByIdDBForm (postsDatabase this) postId s = (Inr (Some post), s)
      \<and> findUserById (usersDatabase this) (tk_id payload) s = (Inr None, s) \<longrightarrow>
      putLike this postId like token s = (Inl (NotFoundError msg_usuario_nao_existe), s))
 \<and> (getPayload (tokenManager this) token = Some payload
      \<and> getPostByIdDBForm (postsDatabase this) postId s = (Inr (Some post), s)
      \<and> findUserById (usersDatabase this) (tk_id payload) s = (Inr (Some user), s)
      \<and> db_creator_id post = tk_id payload \<longrightarrow>
      putLike this postId like token s = (Inl (BadRequestError msg_proprio_post), s))"
  by (simp add: putLike_def promise_defs Let_def)

theorem putLike_precondition_order_witness:
  "getPayload (tokenManager example) ''expired'' = None
 \<and> putLike example ''p009'' True ''expired'' dados = (Inl (BadRequestError msg_token_invalido), dados)
 \<and> getPayload (tokenManager example) ''token-u009'' = Some \<lparr>tk_id = ''u009'', tk_role = ''NORMAL''\<rparr>
 \<and> getPostByIdDBForm (postsDatabase example) ''p009'' dados = (Inr None, dados)
 \<and> putLike example ''p009'' True ''token-u009'' dados = (Inl (NotFoundError msg_post_nao_existe), dados)
 \<and> getPostByIdDBForm (postsDatabase example) ''p001'' dados = (Inr (Some p001), dados)
 \<and> findUserById (usersDatabase example) ''u009'' dados = (Inr None, dados)
 \<and> putLike example ''p001'' True ''token-u009'' dados = (Inl (NotFoundError msg_usuario_nao_existe), dados)
 \<and> getPayload (tokenManager example) ''token-u001'' = Some \<lparr>tk_id = ''u001'', tk_role = ''NORMAL''\<rparr>
 \<and> findUserById (usersDatabase example) ''u001'' dados = (Inr (Some u001), dados)
 \<and> db_creator_id p001 = ''u001''
 \<and> putLike example ''p001'' True ''token-u001'' dados = (Inl (BadRequestError msg_proprio_post), dados)"
proof -
  have t0: "getPayload (tokenManager example) ''expired'' = None"
    by (simp add: example_def labook_def decode_example_def)
  have t9: "getPayload (tokenManager example) ''token-u009'' = Some \<lparr>tk_id = ''u009'', tk_role = ''NORMAL''\<rparr>"
    by (simp add: example_def labook_def decode_example_def)
  have t1: "getPayload (tokenManager example) ''token-u001'' = Some \<lparr>tk_id = ''u001'', tk_role = ''NORMAL''\<rparr>"
    by (simp add: example_def labook_def decode_example_def)
  have p9: "getPostByIdDBForm (postsDatabase example) ''p009'' dados = (Inr None, dados)"
    by (simp add: example_defs reading_def getById_def)
  have p1: "getPostByIdDBForm (postsDatabase example) ''p001'' dados = (Inr (Some p001), dados)"
    by (simp add: example_defs reading_def getById_def)
  have u9: "findUserById (usersDatabase example) ''u009'' dados = (Inr None, dados)"
    by (simp add: example_defs reading_def getUserById_def)
  have u1: "findUserById (usersDatabase example) ''u001'' dados = (Inr (Some u001), dados)"
    by (simp add: example_defs reading_def getUserById_def)
  have c: "db_creator_id p001 = ''u001''"
    by (simp add: p001_def)
  note order = putLike_precondition_order [where this = example and s = dados and like = True]
  have 1: "putLike example ''p009'' True ''expired'' dados = (Inl (BadRequestError msg_token_invalido), dados)"
    using order [where token = "''expired''" and postId = "''p009''"] t0 by blast
  have 2: "putLike example ''p009'' True ''token-u009'' dados = (Inl (NotFoundError msg_post_nao_existe), dados)"
    using order [where token = "''token-u009''" and postId = "''p009''"] t9 p9 by blast
  have 3: "putLike example ''p001'' True ''token-u009'' dados = (Inl (NotFoundError msg_usuario_nao_existe), dados)"
    using order [where token = "''token-u009''" and postId = "''p001''"
                   and payload = "\<lparr>tk_id = ''u009'', tk_role = ''NORMAL''\<rparr>" and post = p001] t9 p1 u9
    by simp
  have 4: "putLike example ''p001'' True ''token-u001'' dados = (Inl (BadRequestError msg_proprio_post), dados)"
    using order [where token = "''token-u001''" and postId = "''p001''"
                   and payload = "\<lparr>tk_id = ''u001'', tk_role = ''NORMAL''\<rparr>" and post = p001 and user = u001]
      t1 p1 u1 c
    by simp
  from t0 t9 t1 p9 p1 u9 u1 c 1 2 3 4 show ?thesis by blast
qed

subsection \<open>Ownership\<close>

text \<open>
  Claim C6. For every call of \<open>editPost\<close> or \<open>deletePost\<close> with a token that decodes,
  where the lookup finds the target post (and leaves the store as it is) and the
  requester's id differs from the post's \<open>creator_id\<close>: the operation fails with
  \<open>BadRequestError\<close> and the store after the call is the store before it, so the post
  keeps all its fields and nothing else is mutated. This holds for every posts database:
  neither \<open>editPostDB\<close> nor \<open>deletePostDB\<close> is called.
\<close>

theorem non_owner_cannot_edit_or_delete:
  "(getPayload (tokenManager this) token = Some payload
      \<and> getPostByIdOutputForm (postsDatabase this) idToEdit s = (Inr (Some postToEdit), s)
      \<and> tk_id payload \<noteq> out_creator_id postToEdit \<longrightarrow>
      editPost this now idToEdit newContent token s = (Inl (BadRequestError msg_editar_proprio), s))
 \<and> (getPayload (tokenManager this) token = Some payload
      \<and> getPostByIdDBForm (postsDatabase this) idToDelete s = (Inr (Some postExists), s)
      \<and> tk_id payload \<noteq> db_creator_id postExists \<longrightarrow>
      deletePost this idToDelete token s = (Inl (BadRequestError msg_deletar_proprio), s))"
  by (simp add: editPost_def deletePost_def promise_defs)

theorem non_owner_cannot_edit_or_delete_witness:
  "getPayload (tokenManager example) ''token-u002'' = Some \<lparr>tk_id = ''u002'', tk_role = ''NORMAL''\<rparr>
 \<and> (\<exists>row. getPostByIdOutputForm (postsDatabase example) ''p001'' dados = (Inr (Some row), dados)
        \<and> ''u002'' \<noteq> out_creator_id row)
 \<and> editPost example ''2023-05-17T10:00:00.000Z'' ''p001'' ''chuva'' ''token-u002'' dados
      = (Inl (BadRequestError msg_editar_proprio), dados)
 \<and> getPostByIdDBForm (postsDatabase example) ''p001'' dados = (Inr (Some p001), dados)
 \<and> ''u002'' \<noteq> db_creator_id p001
 \<and> deletePost example ''p001'' ''token-u002'' dados = (Inl (BadRequestError msg_deletar_proprio), dados)
 \<and> getById ''p001'' dados = Some p001"
proof -
  let ?row = "\<lparr>out_id = ''p001'', out_creator_id = ''u001'', out_content = ''lindo dia.'',
               out_likes = 0, out_dislikes = 0, out_created_at = ''2023-05-15 12:00:00'',
               out_updated_at = None, out_name = ''Fulano''\<rparr>"
  have t2: "getPayload (tokenManager example) ''token-u002'' = Some \<lparr>tk_id = ''u002'', tk_role = ''NORMAL''\<rparr>"
    by (simp add: example_def labook_def decode_example_def)
  have r: "getPostByIdOutputForm (postsDatabase example) ''p001'' dados = (Inr (Some ?row), dados)"
    by (simp add: example_defs reading_def getByIdJoined_def getById_def joinCreator_def getUserById_def)
  have p1: "getPostByIdDBForm (postsDatabase example) ''p001'' dados = (Inr (Some p001), dados)"
    by (simp add: example_defs reading_def getById_def)
  have g: "getById ''p001'' dados = Some p001"
    by (simp add: dados_def p001_def p002_def p003_def getById_def)
  have n: "''u002'' \<noteq> db_creator_id p001"
    by (simp add: p001_def)
  note own = non_owner_cannot_edit_or_delete [where this = example and s = dados
      and token = "''token-u002''" and payload = "\<lparr>tk_id = ''u002'', tk_role = ''NORMAL''\<rparr>"]
  have e: "editPost example ''2023-05-17T10:00:00.000Z'' ''p001'' ''chuva'' ''token-u002'' dados
      = (Inl (BadRequestError msg_editar_proprio), dados)"
    using own [where idToEdit = "''p001''" and postToEdit = ?row] t2 r by simp
  have d: "deletePost example ''p001'' ''token-u002'' dados = (Inl (BadRequestError msg_deletar_proprio), dados)"
    using own [where idToDelete = "''p001''" and postExists = p001] t2 p1 n by simp
  have x: "''u002'' \<noteq> out_creator_id ?row" by simp
  from t2 r x e p1 n d g show ?thesis by blast
qed

subsection \<open>Listing posts\<close>

text \<open>
  Claim C9. For every token that decodes and every list of rows the posts database
  returns, \<open>getPosts\<close> returns one record per row, in the order of the rows: \<open>id\<close>,
  \<open>content\<close>, \<open>likes\<close>, \<open>dislikes\<close>, \<open>createdAt\<close>, \<open>updatedAt\<close> are those of the row and
  \<open>creator\<close> is the row's \<open>creator_id\<close> and \<open>name\<close>. The result is the image of the list
  of rows under one function of the row, so no row is left out or repeated.
\<close>

theorem getPosts_one_record_per_row:
  assumes "getPayload (tokenManager this) token = Some payload"
    and "getPostsDB (postsDatabase this) query s = (Inr rows, s')"
  shows "getPosts this token query s =
    (Inr (map (\<lambda>row. \<lparr>dto_id = out_id row, dto_content = out_content row,
                        dto_likes = out_likes row, dto_dislikes = out_dislikes row,
                        dto_createdAt = out_created_at row, dto_updatedAt = out_updated_at row,
                        dto_creator = \<lparr>cr_id = out_creator_id row, cr_name = out_name row\<rparr>\<rparr>) rows),
     s')"
  using assms by (simp add: getPosts_def promise_defs Let_def comp_def)

theorem getPosts_one_record_per_row_witness:
  "getPayload (tokenManager example) ''token-u002'' = Some \<lparr>tk_id = ''u002'', tk_role = ''NORMAL''\<rparr>
 \<and> getPostsDB (postsDatabase example) (Some ''a'') dados =
     (Inr [\<lparr>out_id = ''p001'', out_creator_id = ''u001'', out_content = ''lindo dia.'',
             out_likes = 0, out_dislikes = 0, out_created_at = ''2023-05-15 12:00:00'',
             out_updated_at = None, out_name = ''Fulano''\<rparr>,
           \<lparr>out_id = ''p002'', out_creator_id = ''u002'', out_content = ''hoje vai ser demais.'',
             out_likes = 0, out_dislikes = 0, out_created_at = ''2023-05-15 12:00:00'',
             out_updated_at = None, out_name = ''Beltrana''\<rparr>,
           \<lparr>out_id = ''p003'', out_creator_id = ''u003'', out_content = ''ontem a lua estava linda.'',
             out_likes = 0, out_dislikes = 0, out_created_at = ''2023-05-15 12:00:00'',
             out_updated_at = None, out_name = ''Astrodev''\<rparr>], dados)
 \<and> getPosts example ''token-u002'' (Some ''a'') dados =
     (Inr [\<lparr>dto_id = ''p001'', dto_content = ''lindo dia.'', dto_likes = 0, dto_dislikes = 0,
             dto_createdAt = ''2023-05-15 12:00:00'', dto_updatedAt = None,
             dto_creator = \<lparr>cr_id = ''u001'', cr_name = ''Fulano''\<rparr>\<rparr>,
           \<lparr>dto_id = ''p002'', dto_content = ''hoje vai ser demais.'', dto_likes = 0, dto_dislikes = 0,
             dto_createdAt = ''2023-05-15 12:00:00'', dto_updatedAt = None,
             dto_creator = \<lparr>cr_id = ''u002'', cr_name = ''Beltrana''\<rparr>\<rparr>,
           \<lparr>dto_id = ''p003'', dto_content = ''ontem a lua estava linda.'', dto_likes = 0, dto_dislikes = 0,
             dto_createdAt = ''2023-05-15 12:00:00'', dto_updatedAt = None,
             dto_creator = \<lparr>cr_id = ''u003'', cr_name = ''Astrodev''\<rparr>\<rparr>], dados)"
proof -
  have t: "getPayload (tokenManager example) ''token-u002'' = Some \<lparr>tk_id = ''u002'', tk_role = ''NORMAL''\<rparr>"
    by (simp add: example_def labook_def decode_example_def)
  have rows: "getPostsDB (postsDatabase example) (Some ''a'') dados =
     (Inr [\<lparr>out_id = ''p001'', out_creator_id = ''u001'', out_content = ''lindo dia.'',
             out_likes = 0, out_dislikes = 0, out_created_at = ''2023-05-15 12:00:00'',
             out_updated_at = None, out_name = ''Fulano''\<rparr>,
           \<lparr>out_id = ''p002'', out_creator_id = ''u002'', out_content = ''hoje vai ser demais.'',
             out_likes = 0, out_dislikes = 0, out_created_at = ''2023-05-15 12:00:00'',
             out_updated_at = None, out_name = ''Beltrana''\<rparr>,
           \<lparr>out_id = ''p003'', out_creator_id = ''u003'', out_content = ''ontem a lua estava linda.'',
             out_likes = 0, out_dislikes = 0, out_created_at = ''2023-05-15 12:00:00'',
             out_updated_at = None, out_name = ''Astrodev''\<rparr>], dados)"
    by (simp add: example_defs reading_def listByQuery_def contains_def joinCreator_def
        getUserById_def List.map_filter_simps)
  from getPosts_one_record_per_row [OF t rows] t rows show ?thesis
    by simp
qed

subsection \<open>Creating posts\<close>

text \<open>
  Claim C10. \<open>createPost\<close> does not look at the content: for every token that decodes
  and every content string, the empty one included, when the posts database finds no
  post with the generated id, \<open>createPost\<close> hands the row with this id, the payload's id
  and the content as given to \<open>createPostDB\<close>, and returns the success message once the
  insertion has returned.
\<close>

theorem createPost_content_verbatim:
  assumes "getPayload (tokenManager this) token = Some payload"
    and "getPostByIdDBForm (postsDatabase this) (generate (idGenerator this)) s = (Inr None, s1)"
    and "createPostDB (postsDatabase this)
           \<lparr>in_id = generate (idGenerator this), in_creator_id = tk_id payload, in_content = content\<rparr> s1
         = (Inr (), s2)"
  shows "createPost this content token s = (Inr \<lparr>message = msg_post_criado\<rparr>, s2)"
  using assms by (simp add: createPost_def promise_defs Let_def)

theorem createPost_content_verbatim_witness:
  "getPayload (tokenManager example) ''token-u002'' = Some \<lparr>tk_id = ''u002'', tk_role = ''NORMAL''\<rparr>
 \<and> getPostByIdDBForm (postsDatabase example) (generate (idGenerator example)) dados = (Inr None, dados)
 \<and> createPostDB (postsDatabase example)
      \<lparr>in_id = generate (idGenerator example), in_creator_id = ''u002'', in_content = ''''\<rparr> dados
    = (Inr (), insertPost ''2023-05-16 09:30:00'' \<lparr>in_id = ''p004'', in_creator_id = ''u002'', in_content = ''''\<rparr> dados)
 \<and> createPost example '''' ''token-u002'' dados =
    (Inr \<lparr>message = msg_post_criado\<rparr>,
     insertPost ''2023-05-16 09:30:00'' \<lparr>in_id = ''p004'', in_creator_id = ''u002'', in_content = ''''\<rparr> dados)
 \<and> getById ''p004'' (insertPost ''2023-05-16 09:30:00''
        \<lparr>in_id = ''p004'', in_creator_id = ''u002'', in_content = ''''\<rparr> dados)
    = Some \<lparr>db_id = ''p004'', db_creator_id = ''u002'', db_content = '''', db_likes = 0, db_dislikes = 0,
            db_created_at = ''2023-05-16 09:30:00'', db_updated_at = None\<rparr>"
proof -
  have t: "getPayload (tokenManager example) ''token-u002'' = Some \<lparr>tk_id = ''u002'', tk_role = ''NORMAL''\<rparr>"
    by (simp add: example_def labook_def decode_example_def)
  have r: "getPostByIdDBForm (postsDatabase example) (generate (idGenerator example)) dados = (Inr None, dados)"
    by (simp add: example_defs reading_def getById_def)
  have w: "createPostDB (postsDatabase example)
      \<lparr>in_id = generate (idGenerator example), in_creator_id = tk_id \<lparr>tk_id = ''u002'', tk_role = ''NORMAL''\<rparr>, in_content = ''''\<rparr> dados
    = (Inr (), insertPost ''2023-05-16 09:30:00'' \<lparr>in_id = ''p004'', in_creator_id = ''u002'', in_content = ''''\<rparr> dados)"
    by (simp add: example_def labook_def store_PostsDatabase_def writing_def)
  have g: "getById ''p004'' (insertPost ''2023-05-16 09:30:00''
        \<lparr>in_id = ''p004'', in_creator_id = ''u002'', in_content = ''''\<rparr> dados)
    = Some \<lparr>db_id = ''p004'', db_creator_id = ''u002'', db_content = '''', db_likes = 0, db_dislikes = 0,
            db_created_at = ''2023-05-16 09:30:00'', db_updated_at = None\<rparr>"
    by (simp add: getById_def insertPost_def dados_def p001_def p002_def p003_def)
  from createPost_content_verbatim [OF t r w] t r w g show ?thesis
    by simp
qed

subsection \<open>The store after a write\<close>

lemma find_snoc: "find P xs = None \<Longrightarrow> find P (xs @ [x]) = (if P x then Some x else None)"
  by (induction xs) auto

lemma find_filter_not: "find P (filter (\<lambda>x. \<not> P x) xs) = None"
  by (induction xs) auto

lemma find_map_upd:
  "(\<And>x. P (f x) = P x) \<Longrightarrow> find P (map (\<lambda>x. if P x then f x else x) xs) = map_option f (find P xs)"
  by (induction xs) auto

lemma putLike_labook:
  "putLike (labook matches datetime newId decode) postId like token s =
     (case decode token of
        None \<Rightarrow> (Inl (BadRequestError msg_token_invalido), s)
      | Some payload \<Rightarrow>
          (case getById postId s of
             None \<Rightarrow> (Inl (NotFoundError msg_post_nao_existe), s)
           | Some post \<Rightarrow>
               (case getUserById (tk_id payload) s of
                  None \<Rightarrow> (Inl (NotFoundError msg_usuario_nao_existe), s)
                | Some user \<Rightarrow>
                    if db_creator_id post = tk_id payload
                    then (Inl (BadRequestError msg_proprio_post), s)
                    else
                      let i = \<lparr>il_userId = tk_id payload, il_postId = postId, il_like = like\<rparr>
                      in (case getReaction i s of
                            None \<Rightarrow> (Inr \<lparr>message = msg_like_enviado\<rparr>,
                                     incrementCounter i (insertReaction i s))
                          | Some row \<Rightarrow>
                              if ld_like row = like
                              then (Inr \<lparr>message = msg_like_removido\<rparr>,
                                    decrementCounter i (deleteReaction i s))
                              else (Inr \<lparr>message = msg_like_alterado\<rparr>,
                                    overwriteCounter i (updateReaction i s))))))"
  by (simp add: putLike_def labook_def store_PostsDatabase_def store_UserDatabase_def
      promise_defs Let_def split: option.splits)

lemma getReaction_inserted:
  "getReaction i s = None \<Longrightarrow>
   getReaction i (incrementCounter i (insertReaction i s))
     = Some \<lparr>ld_user_id = il_userId i, ld_post_id = il_postId i, ld_like = il_like i\<rparr>"
  by (simp add: getReaction_def incrementCounter_def insertReaction_def find_snoc same_pair_def)

lemma getReaction_deleted:
  "getReaction i (decrementCounter i (deleteReaction i s)) = None"
  by (simp add: getReaction_def decrementCounter_def deleteReaction_def find_filter_not)

lemma getReaction_updated:
  "getReaction i (overwriteCounter i (updateReaction i s))
     = map_option (\<lambda>r. r\<lparr>ld_like := il_like i\<rparr>) (getReaction i s)"
proof -
  have "same_pair i (r\<lparr>ld_like := il_like i\<rparr>) = same_pair i r" for r
    by (simp add: same_pair_def)
  then show ?thesis
    by (simp add: getReaction_def overwriteCounter_def updateReaction_def find_map_upd)
qed

lemma getById_incremented:
  "getById (il_postId i) (incrementCounter i (insertReaction i s))
     = map_option (\<lambda>p. if il_like i then p\<lparr>db_likes := db_likes p + 1\<rparr>
                         else p\<lparr>db_dislikes := db_dislikes p + 1\<rparr>) (getById (il_postId i) s)"
  using find_map_upd [where P = "\<lambda>p. db_id p = il_postId i"
      and f = "\<lambda>p. if il_like i then p\<lparr>db_likes := db_likes p + 1\<rparr> else p\<lparr>db_dislikes := db_dislikes p + 1\<rparr>"
      and xs = "posts s"]
  by (simp add: getById_def incrementCounter_def insertReaction_def)

lemma getById_decremented:
  "getById (il_postId i) (decrementCounter i (deleteReaction i s))
     = map_option (\<lambda>p. if il_like i then p\<lparr>db_likes := db_likes p - 1\<rparr>
                         else p\<lparr>db_dislikes := db_dislikes p - 1\<rparr>) (getById (il_postId i) s)"
  using find_map_upd [where P = "\<lambda>p. db_id p = il_postId i"
      and f = "\<lambda>p. if il_like i then p\<lparr>db_likes := db_likes p - 1\<rparr> else p\<lparr>db_dislikes := db_dislikes p - 1\<rparr>"
      and xs = "posts s"]
  by (simp add: getById_def decrementCounter_def deleteReaction_def)

lemma getById_overwritten:
  "getById (il_postId i) (overwriteCounter i (updateReaction i s))
     = map_option (\<lambda>p. if il_like i
                         then p\<lparr>db_likes := db_likes p + 1, db_dislikes := db_dislikes p - 1\<rparr>
                         else p\<lparr>db_dislikes := db_dislikes p + 1, db_likes := db_likes p - 1\<rparr>)
         (getById (il_postId i) s)"
  using find_map_upd [where P = "\<lambda>p. db_id p = il_postId i"
      and f = "\<lambda>p. if il_like i
                         then p\<lparr>db_likes := db_likes p + 1, db_dislikes := db_dislikes p - 1\<rparr>
                         else p\<lparr>db_dislikes := db_dislikes p + 1, db_likes := db_likes p - 1\<rparr>"
      and xs = "posts s"]
  by (simp add: getById_def overwriteCounter_def updateReaction_def)

lemma getUserById_incremented:
  "getUserById u (incrementCounter i (insertReaction i s)) = getUserById u s"
  by (simp add: getUserById_def incrementCounter_def insertReaction_def)

lemma map_decrement_increment:
  "map ((\<lambda>p. if db_id p = k then (if l then p\<lparr>db_likes := db_likes p - 1\<rparr>
                                    else p\<lparr>db_dislikes := db_dislikes p - 1\<rparr>) else p)
      \<circ> (\<lambda>p. if db_id p = k then (if l then p\<lparr>db_likes := db_likes p + 1\<rparr>
                                    else p\<lparr>db_dislikes := db_dislikes p + 1\<rparr>) else p)) ps = ps"
  by (induction ps) auto

lemma filter_not_found: "find P xs = None \<Longrightarrow> filter (\<lambda>x. \<not> P x) xs = xs"
  by (induction xs) (auto split: if_splits)

lemma toggle_off_restores:
  assumes "getReaction i s = None"
  shows "decrementCounter i (deleteReaction i (incrementCounter i (insertReaction i s))) = s"
proof -
  have new: "same_pair i \<lparr>ld_user_id = il_userId i, ld_post_id = il_postId i, ld_like = il_like i\<rparr>"
    by (simp add: same_pair_def)
  have keep: "filter (\<lambda>r. \<not> same_pair i r) (likes_dislikes s) = likes_dislikes s"
    using assms by (simp add: getReaction_def filter_not_found)
  show ?thesis
    by (simp add: decrementCounter_def deleteReaction_def incrementCounter_def insertReaction_def
        new keep map_decrement_increment)
qed

lemma same_pair_key:
  "same_pair i r \<longleftrightarrow> (ld_user_id r, ld_post_id r) = (il_userId i, il_postId i)"
  by (simp add: same_pair_def)

lemma find_key_distinct_rest:
  assumes "k0 \<notin> key ` set rows"
  shows "filter (\<lambda>r. key r \<noteq> k0) rows = rows"
    and "map (\<lambda>r. if key r = k0 then f r else r) rows = rows"
  using assms by (induction rows) auto

lemma length_filter_remove_key:
  assumes "distinct (map key rows)" and "find (\<lambda>r. key r = k0) rows = Some row"
  shows "int (length (filter Q (filter (\<lambda>r. key r \<noteq> k0) rows)))
       = int (length (filter Q rows)) - (if Q row then 1 else 0)"
  using assms
proof (induction rows)
  case Nil
  then show ?case by simp
next
  case (Cons r rows)
  show ?case
  proof (cases "key r = k0")
    case True
    then have "k0 \<notin> key ` set rows" and "row = r"
      using Cons.prems by auto
    then show ?thesis
      using True by (simp add: find_key_distinct_rest(1))
  next
    case False
    then have "find (\<lambda>r. key r = k0) rows = Some row" and "distinct (map key rows)"
      using Cons.prems by simp_all
    then have "int (length (filter Q (filter (\<lambda>r. key r \<noteq> k0) rows)))
       = int (length (filter Q rows)) - (if Q row then 1 else 0)"
      using Cons.IH by blast
    then show ?thesis
      using False by (auto simp del: filter_filter split: if_splits)
  qed
qed

lemma length_filter_update_key:
  assumes "distinct (map key rows)" and "find (\<lambda>r. key r = k0) rows = Some row"
  shows "int (length (filter Q (map (\<lambda>r. if key r = k0 then f r else r) rows)))
       = int (length (filter Q rows)) - (if Q row then 1 else 0) + (if Q (f row) then 1 else 0)"
  using assms
proof (induction rows)
  case Nil
  then show ?case by simp
next
  case (Cons r rows)
  show ?case
  proof (cases "key r = k0")
    case True
    then have "k0 \<notin> key ` set rows" and "row = r"
      using Cons.prems by auto
    then show ?thesis
      using True by (simp add: find_key_distinct_rest(2))
  next
    case False
    then have "find (\<lambda>r. key r = k0) rows = Some row" and "distinct (map key rows)"
      using Cons.prems by simp_all
    then have "int (length (filter Q (map (\<lambda>r. if key r = k0 then f r else r) rows)))
       = int (length (filter Q rows)) - (if Q row then 1 else 0) + (if Q (f row) then 1 else 0)"
      using Cons.IH by blast
    then show ?thesis
      using False by (auto simp del: filter_map split: if_splits)
  qed
qed

lemma found_row_is_of_pair:
  "getReaction i s = Some row \<Longrightarrow> ld_user_id row = il_userId i \<and> ld_post_id row = il_postId i"
  by (auto simp add: getReaction_def find_Some_iff same_pair_def)

lemma count_inserted:
  "count_reactions (incrementCounter i (insertReaction i s)) q k
     = count_reactions s q k + (if q = il_postId i \<and> k = il_like i then 1 else 0)"
  by (auto simp add: count_reactions_def incrementCounter_def insertReaction_def)

lemma count_deleted:
  assumes "reactions_unique s" and "getReaction i s = Some row"
  shows "count_reactions (decrementCounter i (deleteReaction i s)) q k
     = count_reactions s q k - (if q = il_postId i \<and> k = ld_like row then 1 else 0)"
proof -
  let ?key = "\<lambda>r. (ld_user_id r, ld_post_id r)"
  let ?k0 = "(il_userId i, il_postId i)"
  let ?Q = "\<lambda>r. ld_post_id r = q \<and> ld_like r = k"
  have f: "find (\<lambda>r. ?key r = ?k0) (likes_dislikes s) = Some row"
    using assms(2) by (simp add: getReaction_def same_pair_def [abs_def])
  have d: "distinct (map ?key (likes_dislikes s))"
    using assms(1) by (simp add: reactions_unique_def)
  have p: "ld_post_id row = il_postId i"
    using found_row_is_of_pair [OF assms(2)] by simp
  have rows: "likes_dislikes (decrementCounter i (deleteReaction i s))
      = filter (\<lambda>r. ?key r \<noteq> ?k0) (likes_dislikes s)"
    by (simp add: decrementCounter_def deleteReaction_def same_pair_def)
  have "count_reactions (decrementCounter i (deleteReaction i s)) q k
      = int (length (filter ?Q (filter (\<lambda>r. ?key r \<noteq> ?k0) (likes_dislikes s))))"
    unfolding count_reactions_def rows ..
  also have "\<dots> = int (length (filter ?Q (likes_dislikes s))) - (if ?Q row then 1 else 0)"
    by (rule length_filter_remove_key [OF d f])
  also have "\<dots> = count_reactions s q k - (if q = il_postId i \<and> k = ld_like row then 1 else 0)"
    unfolding count_reactions_def p by auto
  finally show ?thesis .
qed

lemma count_updated:
  assumes "reactions_unique s" and "getReaction i s = Some row"
  shows "count_reactions (overwriteCounter i (updateReaction i s)) q k
     = count_reactions s q k - (if q = il_postId i \<and> k = ld_like row then 1 else 0)
         + (if q = il_postId i \<and> k = il_like i then 1 else 0)"
proof -
  let ?key = "\<lambda>r. (ld_user_id r, ld_post_id r)"
  let ?k0 = "(il_userId i, il_postId i)"
  let ?Q = "\<lambda>r. ld_post_id r = q \<and> ld_like r = k"
  let ?f = "\<lambda>r. r\<lparr>ld_like := il_like i\<rparr>"
  have f: "find (\<lambda>r. ?key r = ?k0) (likes_dislikes s) = Some row"
    using assms(2) by (simp add: getReaction_def same_pair_def [abs_def])
  have d: "distinct (map ?key (likes_dislikes s))"
    using assms(1) by (simp add: reactions_unique_def)
  have p: "ld_post_id row = il_postId i"
    using found_row_is_of_pair [OF assms(2)] by simp
  have rows: "likes_dislikes (overwriteCounter i (updateReaction i s))
      = map (\<lambda>r. if ?key r = ?k0 then ?f r else r) (likes_dislikes s)"
    by (simp add: overwriteCounter_def updateReaction_def same_pair_def)
  have "count_reactions (overwriteCounter i (updateReaction i s)) q k
      = int (length (filter ?Q (map (\<lambda>r. if ?key r = ?k0 then ?f r else r) (likes_dislikes s))))"
    unfolding count_reactions_def rows ..
  also have "\<dots> = int (length (filter ?Q (likes_dislikes s))) - (if ?Q row then 1 else 0)
                  + (if ?Q (?f row) then 1 else 0)"
    by (rule length_filter_update_key [OF d f])
  also have "\<dots> = count_reactions s q k - (if q = il_postId i \<and> k = ld_like row then 1 else 0)
         + (if q = il_postId i \<and> k = il_like i then 1 else 0)"
  proof -
    have q1: "(ld_post_id row = q \<and> ld_like row = k) = (q = il_postId i \<and> k = ld_like row)"
      unfolding p by auto
    have q2: "(ld_post_id (row\<lparr>ld_like := il_like i\<rparr>) = q \<and> ld_like (row\<lparr>ld_like := il_like i\<rparr>) = k)
        = (q = il_postId i \<and> k = il_like i)"
      by (auto simp add: p)
    show ?thesis
      unfolding count_reactions_def q1 q2 ..
  qed
  finally show ?thesis .
qed

lemma unique_inserted:
  assumes "reactions_unique s" and "getReaction i s = None"
  shows "reactions_unique (incrementCounter i (insertReaction i s))"
  using assms
  by (auto simp add: reactions_unique_def incrementCounter_def insertReaction_def getReaction_def
      find_None_iff same_pair_def)

lemma unique_deleted:
  assumes "reactions_unique s"
  shows "reactions_unique (decrementCounter i (deleteReaction i s))"
  using assms
  by (simp add: reactions_unique_def decrementCounter_def deleteReaction_def distinct_map_filter)

lemma unique_updated:
  assumes "reactions_unique s"
  shows "reactions_unique (overwriteCounter i (updateReaction i s))"
proof -
  have "map ((\<lambda>r. (ld_user_id r, ld_post_id r))
            \<circ> (\<lambda>r. if same_pair i r then r\<lparr>ld_like := il_like i\<rparr> else r)) rows
        = map (\<lambda>r. (ld_user_id r, ld_post_id r)) rows" for rows
    by (induction rows) auto
  note same_keys = this
  show ?thesis
    using assms by (simp add: reactions_unique_def overwriteCounter_def updateReaction_def same_keys)
qed

lemma counters_match_map:
  assumes "posts s' = map g (posts s)"
    and "\<And>p. p \<in> set (posts s) \<Longrightarrow>
           db_likes (g p) = count_reactions s' (db_id (g p)) True
         \<and> db_dislikes (g p) = count_reactions s' (db_id (g p)) False"
  shows "counters_match s'"
  using assms by (simp add: counters_match_def list_all_iff)

lemma counters_match_post:
  "counters_match s \<Longrightarrow> p \<in> set (posts s) \<Longrightarrow>
     db_likes p = count_reactions s (db_id p) True \<and> db_dislikes p = count_reactions s (db_id p) False"
  by (simp add: counters_match_def list_all_iff)

lemma match_inserted:
  assumes "counters_match s"
  shows "counters_match (incrementCounter i (insertReaction i s))"
proof (rule counters_match_map)
  show "posts (incrementCounter i (insertReaction i s))
      = map (\<lambda>p. if db_id p = il_postId i
                  then (if il_like i then p\<lparr>db_likes := db_likes p + 1\<rparr>
                        else p\<lparr>db_dislikes := db_dislikes p + 1\<rparr>)
                  else p) (posts s)"
    by (simp add: incrementCounter_def insertReaction_def)
next
  fix p
  assume "p \<in> set (posts s)"
  from counters_match_post [OF assms this]
  show "db_likes (if db_id p = il_postId i
                  then (if il_like i then p\<lparr>db_likes := db_likes p + 1\<rparr>
                        else p\<lparr>db_dislikes := db_dislikes p + 1\<rparr>)
                  else p)
        = count_reactions (incrementCounter i (insertReaction i s))
            (db_id (if db_id p = il_postId i
                  then (if il_like i then p\<lparr>db_likes := db_likes p + 1\<rparr>
                        else p\<lparr>db_dislikes := db_dislikes p + 1\<rparr>)
                  else p)) True
      \<and> db_dislikes (if db_id p = il_postId i
                  then (if il_like i then p\<lparr>db_likes := db_likes p + 1\<rparr>
                        else p\<lparr>db_dislikes := db_dislikes p + 1\<rparr>)
                  else p)
        = count_reactions (incrementCounter i (insertReaction i s))
            (db_id (if db_id p = il_postId i
                  then (if il_like i then p\<lparr>db_likes := db_likes p + 1\<rparr>
                        else p\<lparr>db_dislikes := db_dislikes p + 1\<rparr>)
                  else p)) False"
    by (simp add: count_inserted)
qed

lemma match_deleted:
  assumes "counters_match s" and "reactions_unique s" and "getReaction i s = Some row"
    and "ld_like row = il_like i"
  shows "counters_match (decrementCounter i (deleteReaction i s))"
proof (rule counters_match_map)
  show "posts (decrementCounter i (deleteReaction i s))
      = map (\<lambda>p. if db_id p = il_postId i
                  then (if il_like i then p\<lparr>db_likes := db_likes p - 1\<rparr>
                        else p\<lparr>db_dislikes := db_dislikes p - 1\<rparr>)
                  else p) (posts s)"
    by (simp add: decrementCounter_def deleteReaction_def)
next
  fix p
  assume "p \<in> set (posts s)"
  from counters_match_post [OF assms(1) this] assms(4)
  show "db_likes (if db_id p = il_postId i
                  then (if il_like i then p\<lparr>db_likes := db_likes p - 1\<rparr>
                        else p\<lparr>db_dislikes := db_dislikes p - 1\<rparr>)
                  else p)
        = count_reactions (decrementCounter i (deleteReaction i s))
            (db_id (if db_id p = il_postId i
                  then (if il_like i then p\<lparr>db_likes := db_likes p - 1\<rparr>
                        else p\<lparr>db_dislikes := db_dislikes p - 1\<rparr>)
                  else p)) True
      \<and> db_dislikes (if db_id p = il_postId i
                  then (if il_like i then p\<lparr>db_likes := db_likes p - 1\<rparr>
                        else p\<lparr>db_dislikes := db_dislikes p - 1\<rparr>)
                  else p)
        = count_reactions (decrementCounter i (deleteReaction i s))
            (db_id (if db_id p = il_postId i
                  then (if il_like i then p\<lparr>db_likes := db_likes p - 1\<rparr>
                        else p\<lparr>db_dislikes := db_dislikes p - 1\<rparr>)
                  else p)) False"
    by (simp add: count_deleted [OF assms(2,3)])
qed

lemma match_updated:
  assumes "counters_match s" and "reactions_unique s" and "getReaction i s = Some row"
    and "ld_like row \<noteq> il_like i"
  shows "counters_match (overwriteCounter i (updateReaction i s))"
proof (rule counters_match_map)
  show "posts (overwriteCounter i (updateReaction i s))
      = map (\<lambda>p. if db_id p = il_postId i
                  then (if il_like i
                        then p\<lparr>db_likes := db_likes p + 1, db_dislikes := db_dislikes p - 1\<rparr>
                        else p\<lparr>db_dislikes := db_dislikes p + 1, db_likes := db_likes p - 1\<rparr>)
                  else p) (posts s)"
    by (simp add: overwriteCounter_def updateReaction_def)
next
  fix p
  assume "p \<in> set (posts s)"
  from counters_match_post [OF assms(1) this] assms(4)
  show "db_likes (if db_id p = il_postId i
                  then (if il_like i
                        then p\<lparr>db_likes := db_likes p + 1, db_dislikes := db_dislikes p - 1\<rparr>
                        else p\<lparr>db_dislikes := db_dislikes p + 1, db_likes := db_likes p - 1\<rparr>)
                  else p)
        = count_reactions (overwriteCounter i (updateReaction i s))
            (db_id (if db_id p = il_postId i
                  then (if il_like i
                        then p\<lparr>db_likes := db_likes p + 1, db_dislikes := db_dislikes p - 1\<rparr>
                        else p\<lparr>db_dislikes := db_dislikes p + 1, db_likes := db_likes p - 1\<rparr>)
                  else p)) True
      \<and> db_dislikes (if db_id p = il_postId i
                  then (if il_like i
                        then p\<lparr>db_likes := db_likes p + 1, db_dislikes := db_dislikes p - 1\<rparr>
                        else p\<lparr>db_dislikes := db_dislikes p + 1, db_likes := db_likes p - 1\<rparr>)
                  else p)
        = count_reactions (overwriteCounter i (updateReaction i s))
            (db_id (if db_id p = il_postId i
                  then (if il_like i
                        then p\<lparr>db_likes := db_likes p + 1, db_dislikes := db_dislikes p - 1\<rparr>
                        else p\<lparr>db_dislikes := db_dislikes p + 1, db_likes := db_likes p - 1\<rparr>)
                  else p)) False"
    by (auto simp add: count_updated [OF assms(2,3)])
qed

lemma putLike_keeps_invariant:
  assumes "reactions_unique s" and "counters_match s"
  shows "reactions_unique (snd (putLike (labook matches datetime newId decode) postId like token s))
       \<and> counters_match (snd (putLike (labook matches datetime newId decode) postId like token s))"
proof (cases "decode token")
  case None
  then show ?thesis
    using assms by (simp add: putLike_labook)
next
  case payload: (Some payload)
  let ?i = "\<lparr>il_userId = tk_id payload, il_postId = postId, il_like = like\<rparr>"
  show ?thesis
  proof (cases "getById postId s")
    case None
    then show ?thesis
      using assms payload by (simp add: putLike_labook)
  next
    case post: (Some post)
    show ?thesis
    proof (cases "getUserById (tk_id payload) s")
      case None
      then show ?thesis
        using assms payload post by (simp add: putLike_labook)
    next
      case user: (Some user)
      show ?thesis
      proof (cases "db_creator_id post = tk_id payload")
        case True
        then show ?thesis
          using assms payload post user by (simp add: putLike_labook)
      next
        case other: False
        show ?thesis
        proof (cases "getReaction ?i s")
          case None
          then show ?thesis
            using payload post user other
              unique_inserted [OF assms(1) None] match_inserted [OF assms(2), of ?i]
            by (simp add: putLike_labook Let_def)
        next
          case row: (Some row)
          show ?thesis
          proof (cases "ld_like row = like")
            case True
            then show ?thesis
              using payload post user other row
                unique_deleted [OF assms(1), of ?i] match_deleted [OF assms(2,1) row]
              by (simp add: putLike_labook Let_def)
          next
            case False
            then show ?thesis
              using payload post user other row
                unique_updated [OF assms(1), of ?i] match_updated [OF assms(2,1) row]
              by (simp add: putLike_labook Let_def)
          qed
        qed
      qed
    qed
  qed
qed

subsection \<open>Evaluating the example data\<close>

lemmas example_labook = example_def [symmetric]

lemma decode_u002:
  "decode_example ''token-u002'' = Some \<lparr>tk_id = ''u002'', tk_role = ''NORMAL''\<rparr>"
  by (simp add: decode_example_def)

lemma decode_u001:
  "decode_example ''token-u001'' = Some \<lparr>tk_id = ''u001'', tk_role = ''NORMAL''\<rparr>"
  by (simp add: decode_example_def)

lemmas data_defs = dados_def dados_liked_def dados_disliked_def u001_def u002_def u003_def
  p001_def p002_def p003_def

subsection \<open>The three-state reaction toggle\<close>

text \<open>
  Claim C1. For every call of \<open>putLike\<close> over the store with a token that decodes, a
  post that exists, an acting user who exists and is not the post's creator:
  if the pair of user and post has no reaction row, \<open>putLike\<close> inserts the row with the
  requested boolean and increments the counter of that kind, and returns the message
  \<open>Like/Dislike enviado com sucesso.\<close>; if the pair's row has the requested boolean, it
  deletes the row and decrements the counter of that kind, and returns
  \<open>Like/Dislike removido com sucesso.\<close>; if the pair's row has the other boolean, it
  overwrites the row with the requested one, increments the counter of the requested
  kind and decrements the other, and returns \<open>Like/Dislike alterado com sucesso.\<close>.
  Each case gives the store after the call, the pair's row in it and the post in it.
\<close>

theorem putLike_transition_table:
  assumes "decode token = Some payload"
    and "getById postId s = Some post"
    and "getUserById (tk_id payload) s = Some user"
    and "db_creator_id post \<noteq> tk_id payload"
    and "i = \<lparr>il_userId = tk_id payload, il_postId = postId, il_like = like\<rparr>"
    and "r = putLike (labook matches datetime newId decode) postId like token s"
  shows
    "(getReaction i s = None \<longrightarrow>
        r = (Inr \<lparr>message = msg_like_enviado\<rparr>, incrementCounter i (insertReaction i s))
      \<and> getReaction i (snd r)
          = Some \<lparr>ld_user_id = tk_id payload, ld_post_id = postId, ld_like = like\<rparr>
      \<and> getById postId (snd r)
          = Some (if like then post\<lparr>db_likes := db_likes post + 1\<rparr>
                  else post\<lparr>db_dislikes := db_dislikes post + 1\<rparr>))
   \<and> (\<forall>row. getReaction i s = Some row \<and> ld_like row = like \<longrightarrow>
        r = (Inr \<lparr>message = msg_like_removido\<rparr>, decrementCounter i (deleteReaction i s))
      \<and> getReaction i (snd r) = None
      \<and> getById postId (snd r)
          = Some (if like then post\<lparr>db_likes := db_likes post - 1\<rparr>
                  else post\<lparr>db_dislikes := db_dislikes post - 1\<rparr>))
   \<and> (\<forall>row. getReaction i s = Some row \<and> ld_like row \<noteq> like \<longrightarrow>
        r = (Inr \<lparr>message = msg_like_alterado\<rparr>, overwriteCounter i (updateReaction i s))
      \<and> getReaction i (snd r) = Some (row\<lparr>ld_like := like\<rparr>)
      \<and> getById postId (snd r)
          = Some (if like then post\<lparr>db_likes := db_likes post + 1, db_dislikes := db_dislikes post - 1\<rparr>
                  else post\<lparr>db_dislikes := db_dislikes post + 1, db_likes := db_likes post - 1\<rparr>))"
proof -
  have p: "il_postId i = postId" and l: "il_like i = like" and u: "il_userId i = tk_id payload"
    using assms(5) by simp_all
  have sent: "getReaction i s = None \<Longrightarrow>
      r = (Inr \<lparr>message = msg_like_enviado\<rparr>, incrementCounter i (insertReaction i s))"
    using assms by (simp add: putLike_labook Let_def)
  have removed: "getReaction i s = Some row \<Longrightarrow> ld_like row = like \<Longrightarrow>
      r = (Inr \<lparr>message = msg_like_removido\<rparr>, decrementCounter i (deleteReaction i s))" for row
    using assms by (simp add: putLike_labook Let_def)
  have changed: "getReaction i s = Some row \<Longrightarrow> ld_like row \<noteq> like \<Longrightarrow>
      r = (Inr \<lparr>message = msg_like_alterado\<rparr>, overwriteCounter i (updateReaction i s))" for row
    using assms by (simp add: putLike_labook Let_def)
  have inc: "getById postId (incrementCounter i (insertReaction i s))
      = Some (if like then post\<lparr>db_likes := db_likes post + 1\<rparr>
              else post\<lparr>db_dislikes := db_dislikes post + 1\<rparr>)"
    using getById_incremented [of i s] assms(2) p l by simp
  have dec: "getById postId (decrementCounter i (deleteReaction i s))
      = Some (if like then post\<lparr>db_likes := db_likes post - 1\<rparr>
              else post\<lparr>db_dislikes := db_dislikes post - 1\<rparr>)"
    using getById_decremented [of i s] assms(2) p l by simp
  have ovw: "getById postId (overwriteCounter i (updateReaction i s))
      = Some (if like then post\<lparr>db_likes := db_likes post + 1, db_dislikes := db_dislikes post - 1\<rparr>
              else post\<lparr>db_dislikes := db_dislikes post + 1, db_likes := db_likes post - 1\<rparr>)"
    using getById_overwritten [of i s] assms(2) p l by simp
  have c1: "getReaction i s = None \<longrightarrow>
        r = (Inr \<lparr>message = msg_like_enviado\<rparr>, incrementCounter i (insertReaction i s))
      \<and> getReaction i (snd r)
          = Some \<lparr>ld_user_id = tk_id payload, ld_post_id = postId, ld_like = like\<rparr>
      \<and> getById postId (snd r)
          = Some (if like then post\<lparr>db_likes := db_likes post + 1\<rparr>
                  else post\<lparr>db_dislikes := db_dislikes post + 1\<rparr>)"
    using sent getReaction_inserted [of i s] inc p l u by simp
  have c2: "\<forall>row. getReaction i s = Some row \<and> ld_like row = like \<longrightarrow>
        r = (Inr \<lparr>message = msg_like_removido\<rparr>, decrementCounter i (deleteReaction i s))
      \<and> getReaction i (snd r) = None
      \<and> getById postId (snd r)
          = Some (if like then post\<lparr>db_likes := db_likes post - 1\<rparr>
                  else post\<lparr>db_dislikes := db_dislikes post - 1\<rparr>)"
    using removed getReaction_deleted [of i s] dec by simp
  have c3: "\<forall>row. getReaction i s = Some row \<and> ld_like row \<noteq> like \<longrightarrow>
        r = (Inr \<lparr>message = msg_like_alterado\<rparr>, overwriteCounter i (updateReaction i s))
      \<and> getReaction i (snd r) = Some (row\<lparr>ld_like := like\<rparr>)
      \<and> getById postId (snd r)
          = Some (if like then post\<lparr>db_likes := db_likes post + 1, db_dislikes := db_dislikes post - 1\<rparr>
                  else post\<lparr>db_dislikes := db_dislikes post + 1, db_likes := db_likes post - 1\<rparr>)"
    using changed getReaction_updated [of i s] ovw l by simp
  from c1 c2 c3 show ?thesis by blast
qed

theorem putLike_transition_table_witness:
  "decode_example ''token-u002'' = Some \<lparr>tk_id = ''u002'', tk_role = ''NORMAL''\<rparr>
 \<and> getById ''p001'' dados = Some p001
 \<and> getUserById ''u002'' dados = Some u002
 \<and> db_creator_id p001 \<noteq> ''u002''
 \<and> getReaction \<lparr>il_userId = ''u002'', il_postId = ''p001'', il_like = True\<rparr> dados = None
 \<and> putLike example ''p001'' True ''token-u002'' dados
     = (Inr \<lparr>message = msg_like_enviado\<rparr>, dados_liked)
 \<and> getReaction \<lparr>il_userId = ''u002'', il_postId = ''p001'', il_like = True\<rparr> dados_liked
     = Some \<lparr>ld_user_id = ''u002'', ld_post_id = ''p001'', ld_like = True\<rparr>
 \<and> putLike example ''p001'' True ''token-u002'' dados_liked
     = (Inr \<lparr>message = msg_like_removido\<rparr>, dados)
 \<and> putLike example ''p001'' False ''token-u002'' dados_liked
     = (Inr \<lparr>message = msg_like_alterado\<rparr>, dados_disliked)"
proof -
  let ?T = "\<lparr>il_userId = ''u002'', il_postId = ''p001'', il_like = True\<rparr>"
  let ?F = "\<lparr>il_userId = ''u002'', il_postId = ''p001'', il_like = False\<rparr>"
  let ?row = "\<lparr>ld_user_id = ''u002'', ld_post_id = ''p001'', ld_like = True\<rparr>"
  note table = putLike_transition_table [where decode = decode_example and matches = contains
      and datetime = "''2023-05-16 09:30:00''" and newId = "''p004''"
      and token = "''token-u002''" and payload = "\<lparr>tk_id = ''u002'', tk_role = ''NORMAL''\<rparr>"
      and postId = "''p001''", OF decode_u002 _ _ _ _ refl]
  have post0: "getById ''p001'' dados = Some p001"
    by (simp add: getById_def data_defs)
  have user0: "getUserById ''u002'' dados = Some u002"
    by (simp add: getUserById_def data_defs)
  have other0: "db_creator_id p001 \<noteq> ''u002''"
    by (simp add: p001_def)
  have none0: "getReaction ?T dados = None"
    by (simp add: getReaction_def data_defs)
  have post1: "getById ''p001'' dados_liked = Some (p001\<lparr>db_likes := 1\<rparr>)"
    by (simp add: getById_def data_defs)
  have user1: "getUserById ''u002'' dados_liked = Some u002"
    by (simp add: getUserById_def data_defs)
  have other1: "db_creator_id (p001\<lparr>db_likes := 1\<rparr>) \<noteq> ''u002''"
    by (simp add: p001_def)
  have some1T: "getReaction ?T dados_liked = Some ?row"
    by (simp add: getReaction_def same_pair_def data_defs)
  have some1F: "getReaction ?F dados_liked = Some ?row"
    by (simp add: getReaction_def same_pair_def data_defs)
  have s1: "incrementCounter ?T (insertReaction ?T dados) = dados_liked"
    by (simp add: incrementCounter_def insertReaction_def data_defs)
  have s2: "decrementCounter ?T (deleteReaction ?T dados_liked) = dados"
    by (simp add: decrementCounter_def deleteReaction_def same_pair_def data_defs)
  have s3: "overwriteCounter ?F (updateReaction ?F dados_liked) = dados_disliked"
    by (simp add: overwriteCounter_def updateReaction_def same_pair_def data_defs)
  have sent: "putLike example ''p001'' True ''token-u002'' dados
     = (Inr \<lparr>message = msg_like_enviado\<rparr>, dados_liked)"
    using table [where s = dados and like = True and post = p001 and user = u002] post0 user0 other0 none0 s1
    by (simp add: example_labook)
  have removed: "putLike example ''p001'' True ''token-u002'' dados_liked
     = (Inr \<lparr>message = msg_like_removido\<rparr>, dados)"
    using table [where s = dados_liked and like = True and post = "p001\<lparr>db_likes := 1\<rparr>" and user = u002]
      post1 user1 other1 some1T s2
    by (simp add: example_labook)
  have changed: "putLike example ''p001'' False ''token-u002'' dados_liked
     = (Inr \<lparr>message = msg_like_alterado\<rparr>, dados_disliked)"
    using table [where s = dados_liked and like = False and post = "p001\<lparr>db_likes := 1\<rparr>" and user = u002]
      post1 user1 other1 some1F s3
    by (simp add: example_labook)
  from decode_u002 post0 user0 other0 none0 sent some1T removed changed show ?thesis
    by blast
qed

text \<open>
  Claim C5. For every user who is not the creator and every post on which the user has
  no reaction, calling \<open>putLike\<close> with \<open>like = true\<close> twice in a row leaves the pair
  without a reaction: the first call sends the like, the second call does not throw but
  returns the message of a removal, after it the pair has no row, and the store is the
  one before the first call.
\<close>

theorem putLike_twice_toggles_off:
  assumes "decode token = Some payload"
    and "getById postId s = Some post"
    and "getUserById (tk_id payload) s = Some user"
    and "db_creator_id post \<noteq> tk_id payload"
    and "i = \<lparr>il_userId = tk_id payload, il_postId = postId, il_like = True\<rparr>"
    and "getReaction i s = None"
    and "r1 = putLike (labook matches datetime newId decode) postId True token s"
    and "r2 = putLike (labook matches datetime newId decode) postId True token (snd r1)"
  shows "fst r1 = Inr \<lparr>message = msg_like_enviado\<rparr>
       \<and> getReaction i (snd r1) = Some \<lparr>ld_user_id = tk_id payload, ld_post_id = postId, ld_like = True\<rparr>
       \<and> fst r2 = Inr \<lparr>message = msg_like_removido\<rparr>
       \<and> getReaction i (snd r2) = None
       \<and> snd r2 = s"
proof -
  let ?s1 = "incrementCounter i (insertReaction i s)"
  have first: "r1 = (Inr \<lparr>message = msg_like_enviado\<rparr>, ?s1)"
    using assms(1-7) by (simp add: putLike_labook Let_def)
  have row: "getReaction i ?s1 = Some \<lparr>ld_user_id = tk_id payload, ld_post_id = postId, ld_like = True\<rparr>"
    using getReaction_inserted [OF assms(6)] assms(5) by simp
  have post: "getById postId ?s1 = Some (post\<lparr>db_likes := db_likes post + 1\<rparr>)"
    using getById_incremented [of i s] assms(2,5) by simp
  have user: "getUserById (tk_id payload) ?s1 = Some user"
    using assms(3) by (simp add: getUserById_incremented)
  have second: "r2 = (Inr \<lparr>message = msg_like_removido\<rparr>, decrementCounter i (deleteReaction i ?s1))"
    using assms(1,4,5,8) first row post user by (simp add: putLike_labook Let_def)
  have restored: "decrementCounter i (deleteReaction i ?s1) = s"
    using assms(6) by (rule toggle_off_restores)
  from first row second restored assms(6) show ?thesis
    by simp
qed

theorem putLike_twice_toggles_off_witness:
  "decode_example ''token-u002'' = Some \<lparr>tk_id = ''u002'', tk_role = ''NORMAL''\<rparr>
 \<and> getById ''p001'' dados = Some p001
 \<and> getUserById ''u002'' dados = Some u002
 \<and> db_creator_id p001 \<noteq> ''u002''
 \<and> getReaction \<lparr>il_userId = ''u002'', il_postId = ''p001'', il_like = True\<rparr> dados = None
 \<and> fst (putLike example ''p001'' True ''token-u002''
          (snd (putLike example ''p001'' True ''token-u002'' dados)))
     = Inr \<lparr>message = msg_like_removido\<rparr>
 \<and> getReaction \<lparr>il_userId = ''u002'', il_postId = ''p001'', il_like = True\<rparr>
       (snd (putLike example ''p001'' True ''token-u002''
          (snd (putLike example ''p001'' True ''token-u002'' dados)))) = None
 \<and> snd (putLike example ''p001'' True ''token-u002''
          (snd (putLike example ''p001'' True ''token-u002'' dados))) = dados"
proof -
  let ?T = "\<lparr>il_userId = ''u002'', il_postId = ''p001'', il_like = True\<rparr>"
  have post0: "getById ''p001'' dados = Some p001"
    by (simp add: getById_def data_defs)
  have user0: "getUserById ''u002'' dados = Some u002"
    by (simp add: getUserById_def data_defs)
  have other0: "db_creator_id p001 \<noteq> ''u002''"
    by (simp add: p001_def)
  have none0: "getReaction ?T dados = None"
    by (simp add: getReaction_def data_defs)
  have i: "?T = \<lparr>il_userId = tk_id \<lparr>tk_id = ''u002'', tk_role = ''NORMAL''\<rparr>, il_postId = ''p001'', il_like = True\<rparr>"
    by simp
  from putLike_twice_toggles_off [where decode = decode_example and matches = contains
      and datetime = "''2023-05-16 09:30:00''" and newId = "''p004''",
      OF decode_u002 post0 _ _ i none0 refl refl, of u002] user0 other0
    decode_u002 post0 none0
  show ?thesis
    by (simp add: example_labook)
qed

subsection \<open>Creating a post in the store\<close>

text \<open>
  Claim C7. \<open>createPost\<close> with a token that decodes takes the id the generator returns.
  If the store has a post of that id, it throws \<open>BadRequestError\<close> (\<open>Post ja existe.\<close>)
  and the store is unchanged, so nothing is inserted. Otherwise it appends to \<open>posts\<close>
  the row whose id is the generated one, whose \<open>creator_id\<close> is the payload's id, whose
  content is the given content and whose \<open>likes\<close> and \<open>dislikes\<close> are zero, the lookup
  of the id then finds this row, and it returns the message \<open>Post criado com sucesso.\<close>.
\<close>

theorem createPost_persists_new_post:
  assumes "decode token = Some payload"
    and "new = \<lparr>db_id = newId, db_creator_id = tk_id payload, db_content = content,
                db_likes = 0, db_dislikes = 0, db_created_at = datetime, db_updated_at = None\<rparr>"
    and "r = createPost (labook matches datetime newId decode) content token s"
  shows "(getById newId s \<noteq> None \<longrightarrow> r = (Inl (BadRequestError msg_post_ja_existe), s))
       \<and> (getById newId s = None \<longrightarrow>
            r = (Inr \<lparr>message = msg_post_criado\<rparr>, s\<lparr>posts := posts s @ [new]\<rparr>)
          \<and> getById newId (snd r) = Some new)"
proof -
  have found: "getById newId s \<noteq> None \<Longrightarrow> r = (Inl (BadRequestError msg_post_ja_existe), s)"
    using assms(1,3)
    by (auto simp add: createPost_def labook_def store_PostsDatabase_def promise_defs Let_def)
  have fresh: "getById newId s = None \<Longrightarrow>
       r = (Inr \<lparr>message = msg_post_criado\<rparr>, s\<lparr>posts := posts s @ [new]\<rparr>)"
    using assms
    by (simp add: createPost_def labook_def store_PostsDatabase_def promise_defs Let_def insertPost_def)
  have stored: "getById newId s = None \<Longrightarrow> getById newId (s\<lparr>posts := posts s @ [new]\<rparr>) = Some new"
    using assms(2) by (simp add: getById_def find_snoc)
  from found fresh stored show ?thesis by simp
qed

theorem createPost_persists_new_post_witness:
  "decode_example ''token-u002'' = Some \<lparr>tk_id = ''u002'', tk_role = ''NORMAL''\<rparr>
 \<and> getById ''p004'' dados = None
 \<and> createPost example ''bom dia'' ''token-u002'' dados
     = (Inr \<lparr>message = msg_post_criado\<rparr>,
        dados\<lparr>posts := posts dados @
          [\<lparr>db_id = ''p004'', db_creator_id = ''u002'', db_content = ''bom dia'', db_likes = 0,
            db_dislikes = 0, db_created_at = ''2023-05-16 09:30:00'', db_updated_at = None\<rparr>]\<rparr>)
 \<and> getById ''p004'' (snd (createPost example ''bom dia'' ''token-u002'' dados))
     = Some \<lparr>db_id = ''p004'', db_creator_id = ''u002'', db_content = ''bom dia'', db_likes = 0,
             db_dislikes = 0, db_created_at = ''2023-05-16 09:30:00'', db_updated_at = None\<rparr>
 \<and> getById ''p001'' dados \<noteq> None
 \<and> createPost (labook contains ''2023-05-16 09:30:00'' ''p001'' decode_example)
       ''bom dia'' ''token-u002'' dados
     = (Inl (BadRequestError msg_post_ja_existe), dados)"
proof -
  have fresh: "getById ''p004'' dados = None"
    by (simp add: getById_def data_defs)
  have taken: "getById ''p001'' dados \<noteq> None"
    by (simp add: getById_def data_defs)
  note persists = createPost_persists_new_post [where decode = decode_example and matches = contains
      and datetime = "''2023-05-16 09:30:00''" and token = "''token-u002''" and s = dados
      and content = "''bom dia''", OF decode_u002 refl refl]
  have created: "createPost example ''bom dia'' ''token-u002'' dados
     = (Inr \<lparr>message = msg_post_criado\<rparr>,
        dados\<lparr>posts := posts dados @
          [\<lparr>db_id = ''p004'', db_creator_id = ''u002'', db_content = ''bom dia'', db_likes = 0,
            db_dislikes = 0, db_created_at = ''2023-05-16 09:30:00'', db_updated_at = None\<rparr>]\<rparr>)"
    using persists [where newId = "''p004''"] fresh by (simp add: example_labook)
  have stored: "getById ''p004'' (snd (createPost example ''bom dia'' ''token-u002'' dados))
     = Some \<lparr>db_id = ''p004'', db_creator_id = ''u002'', db_content = ''bom dia'', db_likes = 0,
             db_dislikes = 0, db_created_at = ''2023-05-16 09:30:00'', db_updated_at = None\<rparr>"
    unfolding created by (simp add: getById_def data_defs)
  have collision: "createPost (labook contains ''2023-05-16 09:30:00'' ''p001'' decode_example)
       ''bom dia'' ''token-u002'' dados
     = (Inl (BadRequestError msg_post_ja_existe), dados)"
    using persists [where newId = "''p001''"] taken by blast
  from decode_u002 fresh created stored taken collision show ?thesis
    by blast
qed

subsection \<open>Row and counter together\<close>

text \<open>
  Claim C8, as the code has it. Over a store none of whose calls fails, every call of
  \<open>putLike\<close> either throws, and then the store is the one before the call (neither the
  reaction row nor a counter has changed: each error of \<open>putLike\<close> itself is thrown
  before the first write), or returns, and then both have changed: the pair's reaction
  row differs from the one before and the post's row, with its counters, differs from
  the one before.
\<close>

theorem putLike_all_or_nothing:
  assumes "r = putLike (labook matches datetime newId decode) postId like token s"
  shows "(\<forall>e. fst r = Inl e \<longrightarrow> snd r = s)
       \<and> (\<forall>out payload. fst r = Inr out \<and> decode token = Some payload \<longrightarrow>
             getReaction \<lparr>il_userId = tk_id payload, il_postId = postId, il_like = like\<rparr> (snd r)
               \<noteq> getReaction \<lparr>il_userId = tk_id payload, il_postId = postId, il_like = like\<rparr> s
           \<and> getById postId (snd r) \<noteq> getById postId s)"
proof -
  let ?call = "putLike (labook matches datetime newId decode) postId like token s"
  have err: "fst r = Inl e \<Longrightarrow> snd r = s" for e
    unfolding assms
    by (auto simp add: putLike_labook Let_def split: option.splits if_splits)
  have ok: "getReaction \<lparr>il_userId = tk_id payload, il_postId = postId, il_like = like\<rparr> (snd r)
               \<noteq> getReaction \<lparr>il_userId = tk_id payload, il_postId = postId, il_like = like\<rparr> s
           \<and> getById postId (snd r) \<noteq> getById postId s"
    if "fst r = Inr out" and d: "decode token = Some payload" for out payload
  proof -
    let ?i = "\<lparr>il_userId = tk_id payload, il_postId = postId, il_like = like\<rparr>"
    have returned: "fst ?call = Inr out"
      using that(1) by (simp add: assms)
    obtain post user where post: "getById postId s = Some post"
      and user: "getUserById (tk_id payload) s = Some user"
      and other: "db_creator_id post \<noteq> tk_id payload"
      using returned d
      by (auto simp add: putLike_labook Let_def split: option.splits if_splits)
    show ?thesis
    proof (cases "getReaction ?i s")
      case None
      then have "snd r = incrementCounter ?i (insertReaction ?i s)"
        using d post user other by (simp add: assms putLike_labook Let_def)
      then show ?thesis
        using None getReaction_inserted [OF None] getById_incremented [of ?i s] post
        by (cases like; cases post) simp_all
    next
      case (Some row)
      show ?thesis
      proof (cases "ld_like row = like")
        case True
        then have "snd r = decrementCounter ?i (deleteReaction ?i s)"
          using Some d post user other by (simp add: assms putLike_labook Let_def)
        then show ?thesis
          using Some getReaction_deleted [of ?i s] getById_decremented [of ?i s] post
          by (cases like; cases post) simp_all
      next
        case False
        then have "snd r = overwriteCounter ?i (updateReaction ?i s)"
          using Some d post user other by (simp add: assms putLike_labook Let_def)
        then show ?thesis
          using False Some getReaction_updated [of ?i s] getById_overwritten [of ?i s] post
          by (cases like; cases post; cases row) simp_all
      qed
    qed
  qed
  from err ok show ?thesis by blast
qed

theorem putLike_all_or_nothing_witness:
  "fst (putLike example ''p001'' True ''token-u001'' dados) = Inl (BadRequestError msg_proprio_post)
 \<and> snd (putLike example ''p001'' True ''token-u001'' dados) = dados
 \<and> fst (putLike example ''p001'' True ''token-u002'' dados) = Inr \<lparr>message = msg_like_enviado\<rparr>
 \<and> decode_example ''token-u002'' = Some \<lparr>tk_id = ''u002'', tk_role = ''NORMAL''\<rparr>
 \<and> getReaction \<lparr>il_userId = ''u002'', il_postId = ''p001'', il_like = True\<rparr>
       (snd (putLike example ''p001'' True ''token-u002'' dados))
     \<noteq> getReaction \<lparr>il_userId = ''u002'', il_postId = ''p001'', il_like = True\<rparr> dados
 \<and> getById ''p001'' (snd (putLike example ''p001'' True ''token-u002'' dados))
     \<noteq> getById ''p001'' dados"
proof -
  have self: "fst (putLike example ''p001'' True ''token-u001'' dados)
      = Inl (BadRequestError msg_proprio_post)"
    by (simp add: example_def putLike_labook decode_u001 getById_def getUserById_def data_defs)
  have sent: "fst (putLike example ''p001'' True ''token-u002'' dados)
      = Inr \<lparr>message = msg_like_enviado\<rparr>"
    by (simp add: example_def putLike_labook Let_def decode_u002 getById_def getUserById_def
        getReaction_def data_defs)
  note unit = putLike_all_or_nothing [where decode = decode_example and matches = contains
      and datetime = "''2023-05-16 09:30:00''" and newId = "''p004''" and postId = "''p001''"
      and like = True and s = dados, OF refl, folded example_def]
  have untouched: "snd (putLike example ''p001'' True ''token-u001'' dados) = dados"
    using unit [where token = "''token-u001''"] self by blast
  have both: "getReaction \<lparr>il_userId = ''u002'', il_postId = ''p001'', il_like = True\<rparr>
       (snd (putLike example ''p001'' True ''token-u002'' dados))
     \<noteq> getReaction \<lparr>il_userId = ''u002'', il_postId = ''p001'', il_like = True\<rparr> dados
   \<and> getById ''p001'' (snd (putLike example ''p001'' True ''token-u002'' dados))
     \<noteq> getById ''p001'' dados"
    using unit [where token = "''token-u002''"] sent decode_u002 by fastforce
  from self untouched sent decode_u002 both show ?thesis
    by blast
qed

text \<open>
  Claim C8 as stated fails when a store call fails: \<open>putLike\<close> changes the row and
  the counter in two awaited calls, with no transaction around them and no handler.
  With a posts database whose \<open>addLikeInPost\<close> is rejected, the call of u002 liking p001
  ends with that error, the reaction row is in \<open>likes_dislikes\<close>, the posts are as
  before, and the counters no longer equal the numbers of rows.
\<close>

theorem counter_write_failure_leaves_row:
  "counters_match dados
 \<and> fst (putLike example_busy ''p001'' True ''token-u002'' dados) = Inl (OtherError ''SQLITE_BUSY'')
 \<and> likes_dislikes (snd (putLike example_busy ''p001'' True ''token-u002'' dados))
     = [\<lparr>ld_user_id = ''u002'', ld_post_id = ''p001'', ld_like = True\<rparr>]
 \<and> posts (snd (putLike example_busy ''p001'' True ''token-u002'' dados)) = posts dados
 \<and> \<not> counters_match (snd (putLike example_busy ''p001'' True ''token-u002'' dados))"
proof -
  have run: "putLike example_busy ''p001'' True ''token-u002'' dados
      = (Inl (OtherError ''SQLITE_BUSY''),
         dados\<lparr>likes_dislikes := [\<lparr>ld_user_id = ''u002'', ld_post_id = ''p001'', ld_like = True\<rparr>]\<rparr>)"
    by (simp add: putLike_def example_busy_def example_def labook_def store_PostsDatabase_def
        store_UserDatabase_def promise_defs Let_def decode_u002 getById_def getUserById_def
        getReaction_def insertReaction_def data_defs)
  have before: "counters_match dados"
    by (simp add: counters_match_def count_reactions_def data_defs)
  have after: "\<not> counters_match
      (dados\<lparr>likes_dislikes := [\<lparr>ld_user_id = ''u002'', ld_post_id = ''p001'', ld_like = True\<rparr>]\<rparr>)"
    by (simp add: counters_match_def count_reactions_def data_defs)
  from run before after show ?thesis
    by simp
qed

subsection \<open>Counters equal the numbers of reaction rows\<close>

text \<open>
  Claim C2, as the code has it. From a store in which each post's \<open>likes\<close> is the number
  of reaction rows of the post with \<open>like = true\<close> and its \<open>dislikes\<close> the number of those
  with \<open>like = false\<close>, and in which a pair of user and post has at most one reaction
  row, every finite sequence of \<open>putLike\<close> calls none of whose store calls fails, with
  any tokens, posts and booleans, throwing or not, leads to a store in which, for every
  post, \<open>likes\<close> is the number of its reaction rows with \<open>like = true\<close> and \<open>dislikes\<close>
  the number of those with \<open>like = false\<close> (and a pair still has at most one row).
\<close>

theorem putLikes_keep_counters:
  assumes "reactions_unique s" and "counters_match s"
  shows "counters_match (putLikes (labook matches datetime newId decode) calls s)
       \<and> reactions_unique (putLikes (labook matches datetime newId decode) calls s)"
  using assms
proof (induction calls arbitrary: s)
  case Nil
  then show ?case by simp
next
  case (Cons call calls)
  obtain postId like token where call: "call = (postId, like, token)"
    by (cases call) auto
  show ?case
    using Cons.IH [of "snd (putLike (labook matches datetime newId decode) postId like token s)"]
      putLike_keeps_invariant [OF Cons.prems, of matches datetime newId decode postId like token]
    by (simp add: call)
qed

theorem putLikes_keep_counters_witness:
  "reactions_unique dados \<and> counters_match dados
 \<and> counters_match (putLikes example
      [(''p001'', True, ''token-u002''), (''p001'', False, ''token-u002''),
       (''p001'', True, ''token-u001''), (''p002'', False, ''token-u001''),
       (''p001'', True, ''token-u003''), (''p009'', True, ''token-u003'')] dados)
 \<and> reactions_unique (putLikes example
      [(''p001'', True, ''token-u002''), (''p001'', False, ''token-u002''),
       (''p001'', True, ''token-u001''), (''p002'', False, ''token-u001''),
       (''p001'', True, ''token-u003''), (''p009'', True, ''token-u003'')] dados)"
proof -
  have unique: "reactions_unique dados"
    by (simp add: reactions_unique_def dados_def)
  have match: "counters_match dados"
    by (simp add: counters_match_def count_reactions_def data_defs)
  from putLikes_keep_counters [OF unique match, of contains "''2023-05-16 09:30:00''" "''p004''"
      decode_example, folded example_def] unique match
  show ?thesis
    by blast
qed

text \<open>
  Claim C2 as stated fails in two ways. First, when a store call fails: from the data of
  \<open>dados.sql\<close>, where the counters equal the numbers of rows and no pair has two rows,
  the one call of u002 liking p001 over the posts database whose \<open>addLikeInPost\<close> is
  rejected leaves the row inserted and the counter at zero. Second, when a pair has two
  rows: from the store where u002 has two like rows on p001 and p001 counts two likes,
  so that the counters equal the numbers of rows, the one call of u002 liking p001 over
  the store whose calls never fail deletes both rows and decrements the counter once.
\<close>

theorem putLike_breaks_counters:
  "reactions_unique dados
 \<and> counters_match dados
 \<and> \<not> counters_match (putLikes example_busy [(''p001'', True, ''token-u002'')] dados)
 \<and> counters_match dados_duplicated
 \<and> putLikes example [(''p001'', True, ''token-u002'')] dados_duplicated
     = \<lparr>users = [u001, u002, u003], posts = [p001\<lparr>db_likes := 1\<rparr>, p002, p003], likes_dislikes = []\<rparr>
 \<and> \<not> counters_match (putLikes example [(''p001'', True, ''token-u002'')] dados_duplicated)"
proof -
  have unique: "reactions_unique dados"
    by (simp add: reactions_unique_def dados_def)
  have match: "counters_match dados"
    by (simp add: counters_match_def count_reactions_def data_defs)
  have busy: "putLikes example_busy [(''p001'', True, ''token-u002'')] dados
      = dados\<lparr>likes_dislikes := [\<lparr>ld_user_id = ''u002'', ld_post_id = ''p001'', ld_like = True\<rparr>]\<rparr>"
    by (simp add: putLike_def example_busy_def example_def labook_def store_PostsDatabase_def
        store_UserDatabase_def promise_defs Let_def decode_u002 getById_def getUserById_def
        getReaction_def insertReaction_def data_defs)
  have diverged: "\<not> counters_match
      (dados\<lparr>likes_dislikes := [\<lparr>ld_user_id = ''u002'', ld_post_id = ''p001'', ld_like = True\<rparr>]\<rparr>)"
    by (simp add: counters_match_def count_reactions_def data_defs)
  have twice: "counters_match dados_duplicated"
    by (simp add: counters_match_def count_reactions_def dados_duplicated_def data_defs)
  have removed: "putLikes example [(''p001'', True, ''token-u002'')] dados_duplicated
      = \<lparr>users = [u001, u002, u003], posts = [p001\<lparr>db_likes := 1\<rparr>, p002, p003], likes_dislikes = []\<rparr>"
    by (simp add: example_def putLike_labook Let_def decode_u002 getById_def getUserById_def
        getReaction_def same_pair_def decrementCounter_def deleteReaction_def
        dados_duplicated_def data_defs)
  have short: "\<not> counters_match
      \<lparr>users = [u001, u002, u003], posts = [p001\<lparr>db_likes := 1\<rparr>, p002, p003], likes_dislikes = []\<rparr>"
    by (simp add: counters_match_def count_reactions_def data_defs)
  from unique match busy diverged twice removed short show ?thesis
    by simp
qed

end
